theory Spec2Isabelle
  imports Complex_Main "HOL-Library.Sublist" "HOL-Library.Log_Nat"
begin

section \<open>Python values and exceptions\<close>

text \<open>
  The values \<open>response.json()\<close> can return: the JSON document as Python sees it.
  A \<open>dict\<close> is an association list in insertion order; its keys are distinct in every
  value Python builds, and a lookup takes the entry of the key.
  A Python \<open>float\<close> is written as the real number it denotes; comparing it with the
  integer constants of the source is exact.
\<close>

datatype pyval =
    PNone
  | PBool bool
  | PInt int
  | PFloat real
  | PStr string
  | PList "pyval list"
  | PDict "(string \<times> pyval) list"

text \<open>The exceptions the source can meet; all of them are subclasses of \<open>Exception\<close>.\<close>

datatype py_error =
    ConnectionError
  | HTTPError nat
  | JSONDecodeError
  | KeyError string
  | TypeError
  | IndexError

text \<open>\<open>v[k]\<close> for a string key \<open>k\<close>: only a dict can be subscripted by a string.\<close>

fun getitem :: "pyval \<Rightarrow> string \<Rightarrow> py_error + pyval" where
  "getitem (PDict kvs) k = (case map_of kvs k of None \<Rightarrow> Inl (KeyError k) | Some v \<Rightarrow> Inr v)"
| "getitem v k = Inl TypeError"

text \<open>
  \<open>iter(v)\<close>, run to the end: a list gives its elements, a string its characters (each a
  string of length one), a dict its keys; every other value is not iterable.
\<close>

fun iter :: "pyval \<Rightarrow> py_error + pyval list" where
  "iter (PList xs) = Inr xs"
| "iter (PStr s) = Inr (map (\<lambda>c. PStr [c]) s)"
| "iter (PDict kvs) = Inr (map (\<lambda>kv. PStr (fst kv)) kvs)"
| "iter v = Inl TypeError"

section \<open>The point catalog\<close>

type_synonym catalog = "(string \<times> real \<times> real) list"

definition cities :: catalog where
  "cities =
    [(''Sapporo'',   43.0618, 141.3545),
     (''Aomori'',    40.8244, 140.7400),
     (''Sendai'',    38.2682, 140.8694),
     (''Niigata'',   37.9022, 139.0236),
     (''Tokyo'',     35.6895, 139.6917),
     (''Kanazawa'',  36.5613, 136.6562),
     (''Nagoya'',    35.1815, 136.9066),
     (''Osaka'',     34.6937, 135.5023),
     (''Hiroshima'', 34.3853, 132.4553),
     (''Kochi'',     33.5588, 133.5312),
     (''Fukuoka'',   33.5904, 130.4017),
     (''Kagoshima'', 31.5600, 130.5580),
     (''Naha'',      26.2124, 127.6809)]"

definition lats :: "catalog \<Rightarrow> real list" where
  "lats cat = map (\<lambda>c. fst (snd c)) cat"

definition lons :: "catalog \<Rightarrow> real list" where
  "lons cat = map (\<lambda>c. snd (snd c)) cat"

definition city_names :: "catalog \<Rightarrow> string list" where
  "city_names cat = map fst cat"

section \<open>The numbers of a column\<close>

text \<open>
  A numeric column of the frame is a \<open>float64\<close> column or, when every value it was
  built from is a Python \<open>int\<close>, an \<open>int64\<close> column. A cell is a finite value, written as
  the real number it denotes, or in a \<open>float64\<close> column an infinity or NaN. The sign of
  a zero is not kept: no step of the source tells the two zeros apart.
\<close>

datatype dtype = Float64 | Int64

datatype number = Fin real | PosInf | NegInf | NaN

text \<open>Rounding to the nearest integer, a tie going to the even one.\<close>

definition round_half_even :: "real \<Rightarrow> int" where
  "round_half_even q =
     (let f = \<lfloor>q\<rfloor>; d = q - of_int f
      in if d < 1 / 2 then f else if 1 / 2 < d then f + 1 else if even f then f else f + 1)"

text \<open>
  The binary64 result of an operation whose exact result is \<open>x\<close>. In units of the
  smallest subnormal, \<open>2\<^sup>-\<^sup>1\<^sup>0\<^sup>7\<^sup>4\<close>, the magnitude \<open>s\<close> has an integer part of some number of
  bits; the significand keeps 53 of them, so \<open>s\<close> is rounded to a multiple of \<open>2\<^sup>k\<close>
  where \<open>k\<close> is the number of bits beyond 53 (none for a subnormal). A result that
  reaches \<open>2\<^sup>1\<^sup>0\<^sup>2\<^sup>4\<close> overflows to an infinity.
\<close>

definition round64 :: "real \<Rightarrow> number" where
  "round64 x =
     (let s = \<bar>x\<bar> * 2 ^ 1074;
          k = floorlog 2 (nat \<lfloor>s\<rfloor>) - 53;
          y = of_int (round_half_even (s / 2 ^ k)) * 2 ^ k / 2 ^ 1074
      in if 2 ^ 1024 \<le> y then (if x < 0 then NegInf else PosInf)
         else Fin (if x < 0 then - y else y))"

fun f64_add :: "number \<Rightarrow> number \<Rightarrow> number" where
  "f64_add (Fin a) (Fin b) = round64 (a + b)"
| "f64_add NaN y = NaN"
| "f64_add x NaN = NaN"
| "f64_add PosInf NegInf = NaN"
| "f64_add NegInf PosInf = NaN"
| "f64_add PosInf y = PosInf"
| "f64_add NegInf y = NegInf"
| "f64_add x PosInf = PosInf"
| "f64_add x NegInf = NegInf"

fun f64_mul :: "number \<Rightarrow> number \<Rightarrow> number" where
  "f64_mul (Fin a) (Fin b) = round64 (a * b)"
| "f64_mul NaN y = NaN"
| "f64_mul x NaN = NaN"
| "f64_mul PosInf (Fin b) = (if b = 0 then NaN else if b < 0 then NegInf else PosInf)"
| "f64_mul NegInf (Fin b) = (if b = 0 then NaN else if b < 0 then PosInf else NegInf)"
| "f64_mul (Fin a) PosInf = (if a = 0 then NaN else if a < 0 then NegInf else PosInf)"
| "f64_mul (Fin a) NegInf = (if a = 0 then NaN else if a < 0 then PosInf else NegInf)"
| "f64_mul PosInf PosInf = PosInf"
| "f64_mul PosInf NegInf = NegInf"
| "f64_mul NegInf PosInf = NegInf"
| "f64_mul NegInf NegInf = PosInf"

text \<open>Arithmetic of an \<open>int64\<close> column: the result is taken modulo \<open>2\<^sup>6\<^sup>4\<close>, without a signal.\<close>

definition wrap64 :: "int \<Rightarrow> int" where
  "wrap64 i = (i + 2 ^ 63) mod 2 ^ 64 - 2 ^ 63"

definition i64_add :: "int \<Rightarrow> int \<Rightarrow> int" where
  "i64_add a b = wrap64 (a + b)"

definition i64_mul :: "int \<Rightarrow> int \<Rightarrow> int" where
  "i64_mul a b = wrap64 (a * b)"

text \<open>
  The real numbers a \<open>float64\<close> cell can hold: in units of \<open>2\<^sup>-\<^sup>1\<^sup>0\<^sup>7\<^sup>4\<close> an integer below
  \<open>2\<^sup>2\<^sup>0\<^sup>9\<^sup>8\<close> whose bits beyond the leading 53 are zero. The integers an \<open>int64\<close> cell can
  hold.
\<close>

definition binary64 :: "real \<Rightarrow> bool" where
  "binary64 x \<longleftrightarrow>
     (let s = \<bar>x\<bar> * 2 ^ 1074; n = nat \<lfloor>s\<rfloor>
      in real n = s \<and> n < 2 ^ 2098 \<and> 2 ^ (floorlog 2 n - 53) dvd n)"

definition in_int64 :: "real \<Rightarrow> bool" where
  "in_int64 x \<longleftrightarrow> of_int \<lfloor>x\<rfloor> = x \<and> - (2 ^ 63) \<le> x \<and> x < 2 ^ 63"

section \<open>Rows of the data frame\<close>

text \<open>
  One row of \<open>all_records\<close>. The fetch stores whatever values the response holds, so
  the row is polymorphic in the types of \<open>Time\<close> and \<open>Temperature\<close>; the steps after the
  fetch work on rows whose timestamp is a string and whose temperature is a number.
\<close>

record ('t, 'v) row =
  City :: string
  lat :: real
  lon :: real
  Time :: 't
  Temperature :: 'v

type_synonym raw_row = "(pyval, pyval) row"
type_synonym forecast_record = "(string, real) row"

text \<open>The two columns the encoding adds to \<open>df_filtered\<close>, one after the other.\<close>

record ('t, 'v) row_elev = "('t, 'v) row" +
  elevation :: number

record ('t, 'v) row_enc = "('t, 'v) row_elev" +
  color :: "nat list"

section \<open>fetch_forecast_data\<close>

text \<open>
  What the network answers to the one request: \<open>requests.get\<close> raises, or returns a
  response with a status code and a body that is a JSON document or not.
\<close>

record response =
  status_code :: nat
  json_body :: "pyval option"

definition raise_for_status :: "response \<Rightarrow> py_error + unit" where
  "raise_for_status r =
     (if 400 \<le> status_code r \<and> status_code r < 600 then Inl (HTTPError (status_code r))
      else Inr ())"

definition response_json :: "response \<Rightarrow> py_error + pyval" where
  "response_json r = (case json_body r of None \<Rightarrow> Inl JSONDecodeError | Some data \<Rightarrow> Inr data)"

text \<open>\<open>data if isinstance(data, list) else [data]\<close>\<close>

definition data_list_of :: "pyval \<Rightarrow> pyval list" where
  "data_list_of data = (case data of PList xs \<Rightarrow> xs | _ \<Rightarrow> [data])"

text \<open>
  The inner loop: one record for each pair of \<open>zip(times, temps)\<close>, which pairs the two
  sequences position by position and stops with the shorter one.
\<close>

definition zip_records :: "string \<Rightarrow> real \<Rightarrow> real \<Rightarrow> pyval list \<Rightarrow> pyval list \<Rightarrow> raw_row list" where
  "zip_records city_name la lo ts vs =
     map (\<lambda>p. \<lparr>City = city_name, lat = la, lon = lo, Time = fst p, Temperature = snd p\<rparr>)
       (zip ts vs)"

text \<open>
  The body of the outer loop after \<open>city_names[i]\<close>: the two reads of the response
  (each subscripts \<open>city_data\<close> anew), then the inner loop. \<open>zip\<close> asks both arguments
  for an iterator before the first pair is made.
\<close>

definition city_records :: "string \<Rightarrow> real \<Rightarrow> real \<Rightarrow> pyval \<Rightarrow> py_error + raw_row list" where
  "city_records city_name la lo city_data =
     (case getitem city_data ''hourly'' of Inl e \<Rightarrow> Inl e | Inr h1 \<Rightarrow>
     (case getitem h1 ''time'' of Inl e \<Rightarrow> Inl e | Inr timesv \<Rightarrow>
     (case getitem city_data ''hourly'' of Inl e \<Rightarrow> Inl e | Inr h2 \<Rightarrow>
     (case getitem h2 ''temperature_2m'' of Inl e \<Rightarrow> Inl e | Inr temps \<Rightarrow>
     (case iter timesv of Inl e \<Rightarrow> Inl e | Inr ts \<Rightarrow>
     (case iter temps of Inl e \<Rightarrow> Inl e | Inr vs \<Rightarrow>
        Inr (zip_records city_name la lo ts vs)))))))"

text \<open>\<open>for i, city_data in enumerate(data_list)\<close>, with \<open>all_records\<close> as accumulator.\<close>

fun fetch_loop :: "catalog \<Rightarrow> nat \<Rightarrow> pyval list \<Rightarrow> raw_row list \<Rightarrow> py_error + raw_row list" where
  "fetch_loop cat i [] all_records = Inr all_records"
| "fetch_loop cat i (city_data # rest) all_records =
     (if length (city_names cat) \<le> i then Inl IndexError
      else case city_records (city_names cat ! i) (lats cat ! i) (lons cat ! i) city_data of
             Inl e \<Rightarrow> Inl e
           | Inr rs \<Rightarrow> fetch_loop cat (Suc i) rest (all_records @ rs))"

text \<open>The \<open>try\<close> block: an exception anywhere in it leaves the block at once.\<close>

definition try_block :: "catalog \<Rightarrow> py_error + response \<Rightarrow> py_error + raw_row list" where
  "try_block cat net =
     (case net of Inl e \<Rightarrow> Inl e | Inr resp \<Rightarrow>
     (case raise_for_status resp of Inl e \<Rightarrow> Inl e | Inr u \<Rightarrow>
     (case response_json resp of Inl e \<Rightarrow> Inl e | Inr data \<Rightarrow>
        fetch_loop cat 0 (data_list_of data) [])))"

text \<open>
  The function returns the data frame (its rows) and, as its one effect on the page, the
  calls of \<open>st.error\<close>: the handler shows a fixed prefix followed by the text of the
  exception, modelled by the exception itself, and returns the empty frame.
\<close>

definition fetch_with :: "catalog \<Rightarrow> py_error + response \<Rightarrow> raw_row list \<times> py_error list" where
  "fetch_with cat net =
     (case try_block cat net of
        Inl e \<Rightarrow> ([], [e])
      | Inr all_records \<Rightarrow> (all_records, []))"

definition fetch_forecast_data :: "py_error + response \<Rightarrow> raw_row list \<times> py_error list" where
  "fetch_forecast_data net = fetch_with cities net"

subsection \<open>Shapes of a response\<close>

text \<open>
  The vocabulary of the statements about the fetch. \<open>hourly_field d k\<close> is the value
  under \<open>d['hourly'][k]\<close> when both subscripts succeed. A field is a sequence when that
  value is a list; it is unusable when it is missing or is a value \<open>zip\<close> cannot iterate
  (a number, a boolean, \<open>None\<close>). A string or a dict in the place of a list is neither:
  the code iterates it.
\<close>

definition hourly_field :: "pyval \<Rightarrow> string \<Rightarrow> pyval option" where
  "hourly_field city_data k =
     (case getitem city_data ''hourly'' of Inl e \<Rightarrow> None | Inr h \<Rightarrow>
     (case getitem h k of Inl e \<Rightarrow> None | Inr v \<Rightarrow> Some v))"

definition seq_of :: "pyval \<Rightarrow> string \<Rightarrow> pyval list option" where
  "seq_of city_data k =
     (case hourly_field city_data k of Some (PList xs) \<Rightarrow> Some xs | _ \<Rightarrow> None)"

definition has_lists :: "pyval \<Rightarrow> bool" where
  "has_lists city_data \<longleftrightarrow>
     seq_of city_data ''time'' \<noteq> None \<and> seq_of city_data ''temperature_2m'' \<noteq> None"

definition times_of :: "pyval \<Rightarrow> pyval list" where
  "times_of city_data = (case seq_of city_data ''time'' of Some xs \<Rightarrow> xs | None \<Rightarrow> [])"

definition temps_of :: "pyval \<Rightarrow> pyval list" where
  "temps_of city_data =
     (case seq_of city_data ''temperature_2m'' of Some xs \<Rightarrow> xs | None \<Rightarrow> [])"

definition field_unusable :: "pyval \<Rightarrow> string \<Rightarrow> bool" where
  "field_unusable city_data k =
     (case hourly_field city_data k of
        None \<Rightarrow> True
      | Some v \<Rightarrow> (case iter v of Inl e \<Rightarrow> True | Inr xs \<Rightarrow> False))"

definition ok_status :: "nat \<Rightarrow> bool" where
  "ok_status st \<longleftrightarrow> \<not> (400 \<le> st \<and> st < 600)"

text \<open>The records of the point at position \<open>i\<close> of the catalog, from its two lists.\<close>

definition point_rows :: "catalog \<Rightarrow> nat \<times> pyval \<Rightarrow> raw_row list" where
  "point_rows cat p =
     zip_records (city_names cat ! fst p) (lats cat ! fst p) (lons cat ! fst p)
       (times_of (snd p)) (temps_of (snd p))"

section \<open>get_color\<close>

fun get_color :: "real \<Rightarrow> nat list" where
  "get_color temp =
     (if temp < 0 then [0, 0, 255, 200]
      else if temp < 10 then [0, 255, 255, 200]
      else if temp < 20 then [0, 255, 0, 200]
      else if temp < 25 then [255, 165, 0, 200]
      else [255, 0, 0, 200])"

text \<open>
  The band table as the specification prints it: a lower bound (inclusive) and an upper
  bound (exclusive), either of which may be absent, and the colour of the band.
\<close>

record band =
  lower :: "real option"
  upper :: "real option"
  rgb :: "nat list"

definition band_table :: "band list" where
  "band_table =
    [\<lparr>lower = None, upper = Some 0, rgb = [0, 0, 255]\<rparr>,
     \<lparr>lower = Some 0, upper = Some 10, rgb = [0, 255, 255]\<rparr>,
     \<lparr>lower = Some 10, upper = Some 20, rgb = [0, 255, 0]\<rparr>,
     \<lparr>lower = Some 20, upper = Some 25, rgb = [255, 165, 0]\<rparr>,
     \<lparr>lower = Some 25, upper = None, rgb = [255, 0, 0]\<rparr>]"

definition in_band :: "real \<Rightarrow> band \<Rightarrow> bool" where
  "in_band t b =
     ((case lower b of None \<Rightarrow> True | Some l \<Rightarrow> l \<le> t) \<and>
      (case upper b of None \<Rightarrow> True | Some h \<Rightarrow> t < h))"

section \<open>The time slider\<close>

text \<open>
  \<open>Series.unique()\<close>: the values in order of appearance, each once. \<open>seen\<close> is the table
  of the values met so far.
\<close>

fun unique_from :: "'a list \<Rightarrow> 'a list \<Rightarrow> 'a list" where
  "unique_from seen [] = []"
| "unique_from seen (x # xs) =
     (if x \<in> set seen then unique_from seen xs else x # unique_from (x # seen) xs)"

definition unique :: "'a list \<Rightarrow> 'a list" where
  "unique xs = unique_from [] xs"

definition time_options :: "forecast_record list \<Rightarrow> string list" where
  "time_options full_df = unique (map Time full_df)"

text \<open>
  The positions of a sequence that hold a value for the first time: the reading of
  "first-seen order" the index is compared with.
\<close>

definition first_seen :: "'a list \<Rightarrow> 'a list" where
  "first_seen xs = map (\<lambda>i. xs ! i) (filter (\<lambda>i. xs ! i \<notin> set (take i xs)) [0..<length xs])"

text \<open>\<open>datetime.now()\<close>: the local clock, read when the page runs.\<close>

record datetime =
  year :: nat
  month :: nat
  day :: nat
  hour :: nat
  minute :: nat
  second :: nat
  microsecond :: nat

definition digit :: "nat \<Rightarrow> char" where
  "digit d = ''0123456789'' ! (d mod 10)"

definition pad2 :: "nat \<Rightarrow> string" where
  "pad2 n = [digit (n div 10), digit n]"

text \<open>A number in decimal digits, with no padding.\<close>

fun show_nat :: "nat \<Rightarrow> string" where
  "show_nat n = (if n < 10 then [digit n] else show_nat (n div 10) @ [digit n])"

declare show_nat.simps [simp del]

text \<open>
  \<open>strftime('%Y-%m-%dT%H:00')\<close>: \<open>%Y\<close> is the year in decimal digits as the C library
  writes them, without padding, which is four digits from the year 1000 on; \<open>%m\<close>,
  \<open>%d\<close> and \<open>%H\<close> are two digits each.
\<close>

definition current_hour_iso :: "datetime \<Rightarrow> string" where
  "current_hour_iso now =
     show_nat (year now) @ ''-'' @ pad2 (month now) @ ''-'' @ pad2 (day now) @ ''T'' @
     pad2 (hour now) @ '':00''"

text \<open>
  Reading a timestamp: the value of a decimal numeral, and the clock values whose date
  and hour \<open>datetime.now()\<close> can return with a year of four digits.
\<close>

definition digit_value :: "char \<Rightarrow> nat" where
  "digit_value c = of_char c - 48"

definition is_digit :: "char \<Rightarrow> bool" where
  "is_digit c \<longleftrightarrow> 48 \<le> (of_char c :: nat) \<and> (of_char c :: nat) \<le> 57"

definition decimal :: "string \<Rightarrow> nat" where
  "decimal s = foldl (\<lambda>a c. 10 * a + digit_value c) 0 s"

definition clock_ok :: "datetime \<Rightarrow> bool" where
  "clock_ok now \<longleftrightarrow>
     1000 \<le> year now \<and> year now \<le> 9999 \<and> 1 \<le> month now \<and> month now \<le> 12 \<and>
     1 \<le> day now \<and> day now \<le> 31 \<and> hour now < 24"

text \<open>\<open>list.index(v)\<close>: the first position of \<open>v\<close>; \<open>None\<close> stands for ValueError.\<close>

fun list_index :: "'a list \<Rightarrow> 'a \<Rightarrow> nat option" where
  "list_index [] v = None"
| "list_index (x # xs) v =
     (if x = v then Some 0 else case list_index xs v of None \<Rightarrow> None | Some i \<Rightarrow> Some (Suc i))"

definition default_index :: "string list \<Rightarrow> datetime \<Rightarrow> nat" where
  "default_index opts now =
     (case list_index opts (current_hour_iso now) of None \<Rightarrow> 0 | Some i \<Rightarrow> i)"

section \<open>The snapshot and its encoding\<close>

text \<open>\<open>df[mask]\<close>: the rows at which the boolean mask holds, in the order of the frame.\<close>

definition select_rows :: "'r list \<Rightarrow> bool list \<Rightarrow> 'r list" where
  "select_rows df bmask = map fst (filter snd (zip df bmask))"

definition df_filtered :: "forecast_record list \<Rightarrow> string \<Rightarrow> forecast_record list" where
  "df_filtered full_df selected_time =
     select_rows full_df (map (\<lambda>r. Time r = selected_time) full_df)"

text \<open>
  \<open>df['elevation'] = (df['Temperature'] + 20) * 2000\<close>: two operations on the column,
  each in the arithmetic of the column's dtype, which the selection has kept from
  \<open>full_df\<close>. The constants 20 and 2000 are exact in both. The cells of an \<open>int64\<close>
  column are integers.
\<close>

definition with_elevation :: "dtype \<Rightarrow> forecast_record list \<Rightarrow> (string, real) row_elev list" where
  "with_elevation dt df =
     map (\<lambda>r. row.extend r (row_elev.fields
           (case dt of
              Float64 \<Rightarrow> f64_mul (f64_add (Fin (Temperature r)) (Fin 20)) (Fin 2000)
            | Int64 \<Rightarrow> Fin (of_int (i64_mul (i64_add \<lfloor>Temperature r\<rfloor> 20) 2000))))) df"

text \<open>\<open>df['color'] = df['Temperature'].apply(get_color)\<close>\<close>

definition with_color :: "(string, real) row_elev list \<Rightarrow> (string, real) row_enc list" where
  "with_color df =
     map (\<lambda>r. row_elev.extend r (row_enc.fields (get_color (Temperature r)))) df"

definition encode :: "dtype \<Rightarrow> forecast_record list \<Rightarrow> (string, real) row_enc list" where
  "encode dt df = with_color (with_elevation dt df)"

section \<open>The colour bands\<close>

lemma find_band:
  "find (in_band t) band_table =
     Some (if t < 0 then band_table ! 0 else if t < 10 then band_table ! 1
           else if t < 20 then band_table ! 2 else if t < 25 then band_table ! 3
           else band_table ! 4)"
  by (simp add: band_table_def in_band_def)

lemma band_unique:
  "b \<in> set band_table \<Longrightarrow> b' \<in> set band_table \<Longrightarrow> in_band t b \<Longrightarrow> in_band t b' \<Longrightarrow> b = b'"
  by (auto simp: band_table_def in_band_def)

text \<open>
  C1. Every temperature lies in exactly one band of the table, the first band that
  matches is the only one, and \<open>get_color\<close> returns that band's colour followed by the
  alpha value 200: blue below 0, cyan from 0 and below 10, green from 10 and below 20,
  orange from 20 and below 25, red from 25 on. The boundary values 0, 10, 20 and 25 get
  the colour of the band they open.
\<close>

theorem get_color_band_table:
  "(\<exists>b. find (in_band t) band_table = Some b \<and> get_color t = rgb b @ [200] \<and>
        (\<forall>b' \<in> set band_table. in_band t b' \<longrightarrow> b' = b)) \<and>
   (t < 0 \<longrightarrow> get_color t = [0, 0, 255, 200]) \<and>
   (0 \<le> t \<and> t < 10 \<longrightarrow> get_color t = [0, 255, 255, 200]) \<and>
   (10 \<le> t \<and> t < 20 \<longrightarrow> get_color t = [0, 255, 0, 200]) \<and>
   (20 \<le> t \<and> t < 25 \<longrightarrow> get_color t = [255, 165, 0, 200]) \<and>
   (25 \<le> t \<longrightarrow> get_color t = [255, 0, 0, 200]) \<and>
   length (get_color t) = 4 \<and> get_color t ! 3 = 200 \<and>
   get_color 0 = [0, 255, 255, 200] \<and> get_color 10 = [0, 255, 0, 200] \<and>
   get_color 20 = [255, 165, 0, 200] \<and> get_color 25 = [255, 0, 0, 200]"
proof -
  obtain b where b: "find (in_band t) band_table = Some b"
    using find_band by blast
  then have mem: "b \<in> set band_table" and inb: "in_band t b"
    by (auto simp: find_Some_iff)
  have col: "get_color t = rgb b @ [200]"
    using b unfolding find_band by (auto simp: band_table_def split: if_splits)
  have uniq: "\<forall>b' \<in> set band_table. in_band t b' \<longrightarrow> b' = b"
    using band_unique [OF _ mem _ inb] by blast
  have bands: "(t < 0 \<longrightarrow> get_color t = [0, 0, 255, 200]) \<and>
   (0 \<le> t \<and> t < 10 \<longrightarrow> get_color t = [0, 255, 255, 200]) \<and>
   (10 \<le> t \<and> t < 20 \<longrightarrow> get_color t = [0, 255, 0, 200]) \<and>
   (20 \<le> t \<and> t < 25 \<longrightarrow> get_color t = [255, 165, 0, 200]) \<and>
   (25 \<le> t \<longrightarrow> get_color t = [255, 0, 0, 200])"
    by simp
  have shape: "length (get_color t) = 4 \<and> get_color t ! 3 = 200"
    by simp
  have edges: "get_color 0 = [0, 255, 255, 200] \<and> get_color 10 = [0, 255, 0, 200] \<and>
   get_color 20 = [255, 165, 0, 200] \<and> get_color 25 = [255, 0, 0, 200]"
    by simp
  from b col uniq bands shape edges show ?thesis by blast
qed

theorem get_color_band_table_witness:
  "(10::real) \<le> 10 \<and> (10::real) < 20 \<and> get_color 10 = [0, 255, 0, 200] \<and>
   in_band 10 (band_table ! 2) \<and> band_table ! 2 \<in> set band_table \<and>
   find (in_band 10) band_table = Some (band_table ! 2)"
proof -
  have h: "(10::real) \<le> 10 \<and> (10::real) < 20" by simp
  have m: "band_table ! 2 \<in> set band_table" by (simp add: band_table_def)
  have i: "in_band 10 (band_table ! 2)" by (simp add: band_table_def in_band_def)
  from get_color_band_table [of 10] obtain b where
    b: "find (in_band 10) band_table = Some b"
       "\<forall>b' \<in> set band_table. in_band 10 b' \<longrightarrow> b' = b" by blast
  from b(2) m i have "band_table ! 2 = b" by blast
  with b(1) have f: "find (in_band 10) band_table = Some (band_table ! 2)" by simp
  from get_color_band_table [of 10] h have "get_color 10 = [0, 255, 0, 200]" by blast
  with h m i f show ?thesis by blast
qed

section \<open>Rounding to binary64\<close>

lemma round_half_even_int: "round_half_even (of_int i) = i"
  by (simp add: round_half_even_def)

lemma round64_unfold:
  "round64 x =
     (let y = of_int (round_half_even (\<bar>x\<bar> * 2 ^ E / 2 ^ (floorlog 2 (nat \<lfloor>\<bar>x\<bar> * 2 ^ E\<rfloor>) - 53))) *
              2 ^ (floorlog 2 (nat \<lfloor>\<bar>x\<bar> * 2 ^ E\<rfloor>) - 53) / 2 ^ E
      in if 2 ^ 1024 \<le> y then (if x < 0 then NegInf else PosInf)
         else Fin (if x < 0 then - y else y))"
  if "E = 1074"
  unfolding round64_def Let_def that ..

lemma binary64_unfold:
  "binary64 x \<longleftrightarrow>
     real (nat \<lfloor>\<bar>x\<bar> * 2 ^ E\<rfloor>) = \<bar>x\<bar> * 2 ^ E \<and> nat \<lfloor>\<bar>x\<bar> * 2 ^ E\<rfloor> < 2 ^ (1024 + E) \<and>
     2 ^ (floorlog 2 (nat \<lfloor>\<bar>x\<bar> * 2 ^ E\<rfloor>) - 53) dvd nat \<lfloor>\<bar>x\<bar> * 2 ^ E\<rfloor>"
  if "E = 1074"
  unfolding binary64_def Let_def that by simp

lemma round64_exact:
  assumes "binary64 x"
  shows "round64 x = Fin x"
proof -
  define E :: nat where "E = 1074"
  define s where "s = \<bar>x\<bar> * 2 ^ E"
  define n where "n = nat \<lfloor>s\<rfloor>"
  define k where "k = floorlog 2 n - 53"
  from assms have n: "real n = s" and lt: "n < 2 ^ (1024 + E)" and dv: "2 ^ k dvd n"
    unfolding binary64_unfold [OF E_def] s_def n_def k_def by simp_all
  from dv obtain q where q: "n = 2 ^ k * q" by (auto elim: dvdE)
  have "s / 2 ^ k = real q"
    using n [symmetric] by (simp add: q)
  then have m: "round_half_even (s / 2 ^ k) = int q"
    using round_half_even_int [of "int q"] by simp
  have "real_of_int (int q) * 2 ^ k = s" using n [symmetric] by (simp add: q)
  then have "of_int (round_half_even (s / 2 ^ k)) * 2 ^ k = s"
    by (simp only: m)
  then have y: "of_int (round_half_even (s / 2 ^ k)) * 2 ^ k / 2 ^ E = \<bar>x\<bar>"
    by (simp add: s_def)
  have "real n < 2 ^ (1024 + E)"
    using lt by (metis of_nat_less_iff of_nat_numeral of_nat_power)
  then have "\<bar>x\<bar> * 2 ^ E < 2 ^ 1024 * (2 ^ E :: real)"
    unfolding n s_def by (simp only: power_add)
  then have small: "\<not> 2 ^ 1024 \<le> \<bar>x\<bar>"
    by (simp del: power_numeral add: not_le)
  have "round64 x =
      (if 2 ^ 1024 \<le> \<bar>x\<bar> then (if x < 0 then NegInf else PosInf)
       else Fin (if x < 0 then - \<bar>x\<bar> else \<bar>x\<bar>))"
    unfolding round64_unfold [OF E_def] Let_def
    using y unfolding s_def n_def k_def by (simp only:)
  with small show ?thesis by (simp del: power_numeral)
qed

lemma floorlog_bound: "n < 2 ^ w \<Longrightarrow> floorlog 2 n \<le> w"
  by (rule floorlog_leI) simp_all

lemma binary64_uminus: "binary64 (- x) = binary64 x"
  by (simp add: binary64_def)

lemma binary64_scaled:
  assumes "m < 2 ^ 53" "j \<le> 2045"
  shows "binary64 (real m * 2 ^ j / 2 ^ 1074)"
proof -
  define E :: nat where "E = 1074"
  define n where "n = m * 2 ^ j"
  have s: "\<bar>real m * 2 ^ j / 2 ^ 1074\<bar> * 2 ^ E = real n"
    by (simp add: n_def E_def del: power_numeral)
  have "n < 2 ^ 53 * 2 ^ j" using assms(1) by (simp add: n_def)
  then have lt: "n < 2 ^ (53 + j)" by (simp add: power_add)
  also have "\<dots> \<le> 2 ^ (1024 + E)"
    using assms(2) by (intro power_increasing) (simp_all add: E_def)
  finally have big: "n < 2 ^ (1024 + E)" .
  from floorlog_bound [OF lt] have "floorlog 2 n - 53 \<le> j" by simp
  then have "(2::nat) ^ (floorlog 2 n - 53) dvd 2 ^ j" by (rule le_imp_power_dvd)
  then have dv: "2 ^ (floorlog 2 n - 53) dvd n" by (simp add: n_def)
  show ?thesis
    unfolding binary64_unfold [OF E_def] s using big dv by simp
qed

lemma binary64_int: "\<bar>i\<bar> < 2 ^ 53 \<Longrightarrow> binary64 (of_int i)"
proof -
  assume a: "\<bar>i\<bar> < 2 ^ 53"
  have "nat \<bar>i\<bar> < 2 ^ 53" using a by (simp add: nat_less_iff)
  from binary64_scaled [OF this, of 1074]
  have "binary64 (real (nat \<bar>i\<bar>))" by simp
  then have "binary64 \<bar>real_of_int i\<bar>" by simp
  then show ?thesis
    by (cases "i < 0") (simp_all add: binary64_uminus abs_if)
qed

lemma binary64_frac: "m < 2 ^ 53 \<Longrightarrow> q \<le> 1074 \<Longrightarrow> binary64 (real m / 2 ^ q)"
proof -
  assume m: "m < 2 ^ 53" and q: "q \<le> 1074"
  from binary64_scaled [OF m, of "1074 - q"]
  have "binary64 (real m * 2 ^ (1074 - q) / 2 ^ 1074)" by simp
  moreover have "real m * 2 ^ (1074 - q) / 2 ^ 1074 = real m / 2 ^ q"
    using q by (simp add: power_diff del: power_numeral)
  ultimately show ?thesis by simp
qed


lemma round64_binade:
  assumes lo: "2 ^ p \<le> \<bar>x\<bar>" and hi: "\<bar>x\<bar> < 2 ^ Suc p"
  shows "round64 x =
     (let y = of_int (round_half_even (\<bar>x\<bar> * 2 ^ 52 / 2 ^ p)) * 2 ^ p / 2 ^ 52
      in if 2 ^ 1024 \<le> y then (if x < 0 then NegInf else PosInf)
         else Fin (if x < 0 then - y else y))"
proof -
  define D :: nat where "D = 1022"
  define E :: nat where "E = D + 52"
  have E: "E = 1074" by (simp add: E_def D_def)
  define s where "s = \<bar>x\<bar> * 2 ^ E"
  define n where "n = nat \<lfloor>s\<rfloor>"
  have s_lo: "2 ^ (p + E) \<le> s"
    using lo by (simp add: s_def power_add)
  have s_hi: "s < 2 ^ (Suc p + E)"
    using hi unfolding s_def power_add by (intro mult_strict_right_mono) simp_all
  have "real_of_int (2 ^ (p + E)) \<le> s" using s_lo by simp
  then have "(2::int) ^ (p + E) \<le> \<lfloor>s\<rfloor>" by (simp only: le_floor_iff)
  then have n_lo: "2 ^ (p + E) \<le> n"
    unfolding n_def by (simp add: le_nat_iff)
  have "0 \<le> s" by (simp add: s_def)
  then have "real n \<le> s" by (simp add: n_def)
  with s_hi have "real n < 2 ^ (Suc p + E)" by simp
  then have n_hi: "n < 2 ^ (Suc p + E)"
    by (metis of_nat_less_iff of_nat_numeral of_nat_power)
  have "floorlog 2 n \<le> Suc p + E" by (rule floorlog_bound [OF n_hi])
  moreover have "Suc (p + E) \<le> floorlog 2 n" by (rule floorlog_ge_SucI [OF n_lo]) simp
  ultimately have "floorlog 2 n = Suc (p + E)" by simp
  then have k: "floorlog 2 n - 53 = p + D" by (simp add: E_def)
  have q: "s / 2 ^ (p + D) = \<bar>x\<bar> * 2 ^ 52 / 2 ^ p"
    by (simp add: s_def E_def power_add del: power_numeral)
  have y: "\<And>m::real. m * 2 ^ (p + D) / 2 ^ E = m * 2 ^ p / 2 ^ 52"
    by (simp add: E_def power_add del: power_numeral)
  show ?thesis
    unfolding round64_unfold [OF E] Let_def
    unfolding s_def [symmetric] n_def [symmetric] k q y ..
qed

lemma wrap64_id: "- (2 ^ 63) \<le> i \<Longrightarrow> i < 2 ^ 63 \<Longrightarrow> wrap64 i = i"
  by (simp add: wrap64_def)

section \<open>The encoding of a snapshot\<close>

lemmas row_defs = row.defs row_elev.defs row_enc.defs

lemma elevation_encode:
  "map elevation (encode dt df) =
     map (\<lambda>r. case dt of
                 Float64 \<Rightarrow> f64_mul (f64_add (Fin (Temperature r)) (Fin 20)) (Fin 2000)
               | Int64 \<Rightarrow> Fin (of_int (i64_mul (i64_add \<lfloor>Temperature r\<rfloor> 20) 2000))) df"
  by (simp add: encode_def with_color_def with_elevation_def row_defs)

lemma length_encode: "length (encode dt df) = length df"
  by (simp add: encode_def with_color_def with_elevation_def)

lemma nth_elevation_encode:
  "i < length df \<Longrightarrow>
   elevation (encode dt df ! i) =
     (case dt of
        Float64 \<Rightarrow> f64_mul (f64_add (Fin (Temperature (df ! i))) (Fin 20)) (Fin 2000)
      | Int64 \<Rightarrow> Fin (of_int (i64_mul (i64_add \<lfloor>Temperature (df ! i)\<rfloor> 20) 2000)))"
proof -
  assume i: "i < length df"
  then have "elevation (encode dt df ! i) = map elevation (encode dt df) ! i"
    by (simp add: length_encode)
  also have "\<dots> = (case dt of
        Float64 \<Rightarrow> f64_mul (f64_add (Fin (Temperature (df ! i))) (Fin 20)) (Fin 2000)
      | Int64 \<Rightarrow> Fin (of_int (i64_mul (i64_add \<lfloor>Temperature (df ! i)\<rfloor> 20) 2000)))"
    using i by (simp add: elevation_encode)
  finally show ?thesis .
qed

lemma map_two: "length xs = 2 \<Longrightarrow> map f xs = [f (xs ! 0), f (xs ! 1)]"
  by (auto simp: numeral_2_eq_2 length_Suc_conv)

lemma truncate_encode: "map row.truncate (encode dt df) = df"
  by (induction df) (simp_all add: encode_def with_color_def with_elevation_def row_defs
      del: get_color.simps)

lemma float_exact:
  "binary64 (t + 20) \<Longrightarrow> binary64 ((t + 20) * 2000) \<Longrightarrow>
   f64_mul (f64_add (Fin t) (Fin 20)) (Fin 2000) = Fin ((t + 20) * 2000)"
  by (simp add: round64_exact)

lemma in_int64_of_int: "in_int64 (of_int j) \<longleftrightarrow> - (2 ^ 63) \<le> j \<and> j < 2 ^ 63"
proof -
  have "(- (2 ^ 63) \<le> real_of_int j) = (real_of_int (- (2 ^ 63)) \<le> real_of_int j)"
    by simp
  also have "\<dots> = (- (2 ^ 63) \<le> j)"
    by (simp only: of_int_le_iff)
  finally show ?thesis
    by (simp add: in_int64_def)
qed

lemma int_exact:
  assumes "in_int64 (t + 20)" "in_int64 ((t + 20) * 2000)"
  shows "Fin (of_int (i64_mul (i64_add \<lfloor>t\<rfloor> 20) 2000)) = Fin ((t + 20) * 2000)"
proof -
  from assms(1) have "of_int \<lfloor>t + 20\<rfloor> = t + 20" by (simp add: in_int64_def)
  then have t: "of_int \<lfloor>t\<rfloor> = t" by simp
  define i where "i = \<lfloor>t\<rfloor>"
  have ti: "t = of_int i" unfolding i_def by (rule t [symmetric])
  have "t + 20 = of_int (i + 20)" "(t + 20) * 2000 = of_int ((i + 20) * 2000)"
    by (simp_all add: ti)
  with assms have "in_int64 (of_int (i + 20))" "in_int64 (of_int ((i + 20) * 2000))"
    by simp_all
  then have r: "- (2 ^ 63) \<le> i + 20" "i + 20 < 2 ^ 63"
      "- (2 ^ 63) \<le> (i + 20) * 2000" "(i + 20) * 2000 < 2 ^ 63"
    unfolding in_int64_of_int by blast+
  have a: "i64_add i 20 = i + 20"
    unfolding i64_add_def by (rule wrap64_id [OF r(1,2)])
  have m: "i64_mul (i + 20) 2000 = (i + 20) * 2000"
    unfolding i64_mul_def by (rule wrap64_id [OF r(3,4)])
  show ?thesis unfolding i_def [symmetric] a m by (simp add: ti)
qed

lemma round64_consts: "round64 0 = Fin 0" "round64 25 = Fin 25" "round64 50000 = Fin 50000"
  using binary64_int [of 0] binary64_int [of 25] binary64_int [of 50000]
  by (simp_all add: round64_exact)

text \<open>
  C2, as the code has it. The elevation of a row is \<open>(t + 20) * 2000\<close> for the
  temperature \<open>t\<close> of the row at the same position, computed in the arithmetic of the
  temperature column: in binary64, the sum and the product each rounded to the nearest
  value with ties to even, for a float column, and in 64-bit integers that wrap around
  for an integer column. It is the exact value \<open>(t + 20) * 2000\<close> whenever the sum and
  the product can be held by the column's cells; a row with temperature -20 gets the
  elevation 0 and a row with temperature 5 the elevation 50000, in either arithmetic.
\<close>

theorem elevation_in_column_arithmetic:
  "(\<forall>i < length df.
      elevation (encode Float64 df ! i) =
        f64_mul (f64_add (Fin (Temperature (df ! i))) (Fin 20)) (Fin 2000)) \<and>
   (\<forall>i < length df.
      elevation (encode Int64 df ! i) =
        Fin (of_int (i64_mul (i64_add \<lfloor>Temperature (df ! i)\<rfloor> 20) 2000))) \<and>
   (\<forall>i < length df.
      binary64 (Temperature (df ! i) + 20) \<and> binary64 ((Temperature (df ! i) + 20) * 2000) \<longrightarrow>
      elevation (encode Float64 df ! i) = Fin ((Temperature (df ! i) + 20) * 2000)) \<and>
   (\<forall>i < length df.
      in_int64 (Temperature (df ! i) + 20) \<and> in_int64 ((Temperature (df ! i) + 20) * 2000) \<longrightarrow>
      elevation (encode Int64 df ! i) = Fin ((Temperature (df ! i) + 20) * 2000)) \<and>
   (\<forall>dt r. Temperature r = - 20 \<longrightarrow> map elevation (encode dt [r]) = [Fin 0]) \<and>
   (\<forall>dt r. Temperature r = 5 \<longrightarrow> map elevation (encode dt [r]) = [Fin 50000])"
proof -
  have f: "\<forall>i < length df.
      elevation (encode Float64 df ! i) =
        f64_mul (f64_add (Fin (Temperature (df ! i))) (Fin 20)) (Fin 2000)"
    by (simp add: nth_elevation_encode)
  have n: "\<forall>i < length df.
      elevation (encode Int64 df ! i) =
        Fin (of_int (i64_mul (i64_add \<lfloor>Temperature (df ! i)\<rfloor> 20) 2000))"
    by (simp add: nth_elevation_encode)
  have fe: "\<forall>i < length df.
      binary64 (Temperature (df ! i) + 20) \<and> binary64 ((Temperature (df ! i) + 20) * 2000) \<longrightarrow>
      elevation (encode Float64 df ! i) = Fin ((Temperature (df ! i) + 20) * 2000)"
  proof (intro allI impI, elim conjE)
    fix i
    assume "i < length df" and b: "binary64 (Temperature (df ! i) + 20)"
      "binary64 ((Temperature (df ! i) + 20) * 2000)"
    with f have "elevation (encode Float64 df ! i) =
        f64_mul (f64_add (Fin (Temperature (df ! i))) (Fin 20)) (Fin 2000)"
      by blast
    also have "\<dots> = Fin ((Temperature (df ! i) + 20) * 2000)"
      by (rule float_exact [OF b])
    finally show "elevation (encode Float64 df ! i) = Fin ((Temperature (df ! i) + 20) * 2000)" .
  qed
  have ne: "\<forall>i < length df.
      in_int64 (Temperature (df ! i) + 20) \<and> in_int64 ((Temperature (df ! i) + 20) * 2000) \<longrightarrow>
      elevation (encode Int64 df ! i) = Fin ((Temperature (df ! i) + 20) * 2000)"
  proof (intro allI impI, elim conjE)
    fix i
    assume "i < length df" and b: "in_int64 (Temperature (df ! i) + 20)"
      "in_int64 ((Temperature (df ! i) + 20) * 2000)"
    with n have "elevation (encode Int64 df ! i) =
        Fin (of_int (i64_mul (i64_add \<lfloor>Temperature (df ! i)\<rfloor> 20) 2000))"
      by blast
    also have "\<dots> = Fin ((Temperature (df ! i) + 20) * 2000)"
      by (rule int_exact [OF b])
    finally show "elevation (encode Int64 df ! i) = Fin ((Temperature (df ! i) + 20) * 2000)" .
  qed
  have lo: "\<forall>dt r. Temperature r = - 20 \<longrightarrow> map elevation (encode dt [r]) = [Fin 0]"
    by (simp add: elevation_encode round64_consts i64_add_def i64_mul_def wrap64_def
        split: dtype.split)
  have hi: "\<forall>dt r. Temperature r = 5 \<longrightarrow> map elevation (encode dt [r]) = [Fin 50000]"
    by (simp add: elevation_encode round64_consts i64_add_def i64_mul_def wrap64_def
        split: dtype.split)
  from f n fe ne lo hi show ?thesis by blast
qed

theorem elevation_in_column_arithmetic_witness:
  "binary64 (5 + 20) \<and> binary64 ((5 + 20) * 2000) \<and>
   in_int64 (- 20 + 20) \<and> in_int64 ((- 20 + 20) * 2000) \<and>
   map elevation
     (encode Float64 [\<lparr>City = ''Sapporo'', lat = 43.0618, lon = 141.3545,
                Time = ''2026-01-10T06:00'', Temperature = - 20\<rparr>,
              \<lparr>City = ''Tokyo'', lat = 35.6895, lon = 139.6917,
                Time = ''2026-01-10T06:00'', Temperature = 5\<rparr>]) = [Fin 0, Fin 50000] \<and>
   map elevation
     (encode Int64 [\<lparr>City = ''Sapporo'', lat = 43.0618, lon = 141.3545,
                Time = ''2026-01-10T06:00'', Temperature = - 20\<rparr>,
              \<lparr>City = ''Tokyo'', lat = 35.6895, lon = 139.6917,
                Time = ''2026-01-10T06:00'', Temperature = 5\<rparr>]) = [Fin 0, Fin 50000]"
proof -
  let ?df = "[\<lparr>City = ''Sapporo'', lat = 43.0618, lon = 141.3545,
                Time = ''2026-01-10T06:00'', Temperature = - 20 :: real\<rparr>,
              \<lparr>City = ''Tokyo'', lat = 35.6895, lon = 139.6917,
                Time = ''2026-01-10T06:00'', Temperature = 5\<rparr>]"
  have b: "binary64 (5 + 20)" "binary64 ((5 + 20) * 2000)"
    using binary64_int [of 25] binary64_int [of 50000] by simp_all
  have z: "in_int64 (- 20 + 20)" "in_int64 ((- 20 + 20) * 2000)"
    by (simp_all add: in_int64_def)
  have F: "\<forall>i < length ?df.
      binary64 (Temperature (?df ! i) + 20) \<and> binary64 ((Temperature (?df ! i) + 20) * 2000) \<longrightarrow>
      elevation (encode Float64 ?df ! i) = Fin ((Temperature (?df ! i) + 20) * 2000)"
    using elevation_in_column_arithmetic [of ?df] by blast
  have I: "\<forall>i < length ?df.
      in_int64 (Temperature (?df ! i) + 20) \<and> in_int64 ((Temperature (?df ! i) + 20) * 2000) \<longrightarrow>
      elevation (encode Int64 ?df ! i) = Fin ((Temperature (?df ! i) + 20) * 2000)"
    using elevation_in_column_arithmetic [of ?df] by blast
  have z0: "binary64 (- 20 + 20)" "binary64 ((- 20 + 20) * 2000)"
    using binary64_int [of 0] by simp_all
  have i5: "in_int64 (5 + 20)" "in_int64 ((5 + 20) * 2000)"
    by (simp_all add: in_int64_def)
  from F [rule_format, of 0] z0 have f0: "elevation (encode Float64 ?df ! 0) = Fin 0" by simp
  from F [rule_format, of 1] b have f1: "elevation (encode Float64 ?df ! 1) = Fin 50000" by simp
  from I [rule_format, of 0] z have i0: "elevation (encode Int64 ?df ! 0) = Fin 0" by simp
  from I [rule_format, of 1] i5 have i1: "elevation (encode Int64 ?df ! 1) = Fin 50000" by simp
  have len: "length (encode Float64 ?df) = 2" "length (encode Int64 ?df) = 2"
    by (simp_all add: length_encode)
  have "map elevation (encode Float64 ?df) = [Fin 0, Fin 50000]"
    unfolding map_two [OF len(1)] f0 f1 ..
  moreover have "map elevation (encode Int64 ?df) = [Fin 0, Fin 50000]"
    unfolding map_two [OF len(2)] i0 i1 ..
  ultimately show ?thesis using b z by blast
qed

text \<open>
  The claim C2 as the specification states it fails for a float column. The
  temperature of this row is the binary64 value nearest to 0.1; the sum is rounded to
  \<open>2828823515942093 / 2\<^sup>4\<^sup>7\<close>, the product to 40200, and the exact value of
  \<open>(t + 20) * 2000\<close> is not 40200.
\<close>

theorem elevation_counterexample:
  "binary64 (3602879701896397 / 36028797018963968) \<and>
   map elevation
     (encode Float64 [\<lparr>City = ''Sapporo'', lat = 43.0618, lon = 141.3545,
        Time = ''2026-01-10T06:00'', Temperature = 3602879701896397 / 36028797018963968\<rparr>])
     = [Fin 40200] \<and>
   (3602879701896397 / 36028797018963968 + 20) * 2000 \<noteq> (40200 :: real)"
proof -
  have b: "binary64 (3602879701896397 / 36028797018963968)"
    using binary64_frac [of 3602879701896397 55] by simp
  have r1: "round64 (3602879701896397 / 36028797018963968 + 20) =
      Fin (2828823515942093 / 140737488355328)"
    by (subst round64_binade [of 4]) (simp_all add: round_half_even_def)
  have r2: "round64 (2828823515942093 / 140737488355328 * 2000) = Fin 40200"
    by (subst round64_binade [of 15]) (simp_all add: round_half_even_def)
  have "map elevation
     (encode Float64 [\<lparr>City = ''Sapporo'', lat = 43.0618, lon = 141.3545,
        Time = ''2026-01-10T06:00'', Temperature = 3602879701896397 / 36028797018963968\<rparr>])
     = [Fin 40200]"
    by (simp only: elevation_encode list.map row.simps dtype.case f64_add.simps r1
        f64_mul.simps r2)
  with b show ?thesis by simp
qed

text \<open>
  C9. Encoding adds the columns \<open>elevation\<close> and \<open>color\<close> and changes nothing else:
  dropping the two columns from the encoded frame gives the snapshot back, row by row,
  so the number and the order of the rows and the fields City, lat, lon, Time and
  Temperature of every row are as before.
\<close>

theorem encode_frame:
  "map row.truncate (encode dt df) = df \<and> length (encode dt df) = length df \<and>
   map City (encode dt df) = map City df \<and> map lat (encode dt df) = map lat df \<and>
   map lon (encode dt df) = map lon df \<and> map Time (encode dt df) = map Time df \<and>
   map Temperature (encode dt df) = map Temperature df \<and>
   map color (encode dt df) = map (\<lambda>r. get_color (Temperature r)) df"
  using truncate_encode [of dt df]
  by (simp add: encode_def with_color_def with_elevation_def row_defs comp_def
      del: get_color.simps)

theorem encode_frame_witness:
  "map row.truncate
     (encode Float64 [\<lparr>City = ''Naha'', lat = 26.2124, lon = 127.6809,
                Time = ''2026-01-10T06:00'', Temperature = 21.5\<rparr>]) =
     [\<lparr>City = ''Naha'', lat = 26.2124, lon = 127.6809,
        Time = ''2026-01-10T06:00'', Temperature = 21.5\<rparr>] \<and>
   map color
     (encode Float64 [\<lparr>City = ''Naha'', lat = 26.2124, lon = 127.6809,
                Time = ''2026-01-10T06:00'', Temperature = 21.5\<rparr>]) = [[255, 165, 0, 200]]"
  using encode_frame
    [of Float64 "[\<lparr>City = ''Naha'', lat = 26.2124, lon = 127.6809,
            Time = ''2026-01-10T06:00'', Temperature = 21.5\<rparr>]"]
  by simp

section \<open>The snapshot selector\<close>

lemma select_rows_filter: "select_rows df (map P df) = filter P df"
  unfolding select_rows_def by (induction df) auto

text \<open>
  C4. The rows selected for a timestamp \<open>T\<close> are exactly the rows of the frame whose
  \<open>Time\<close> is \<open>T\<close>, in the order of the frame; no row with that timestamp is left out, and
  when no row has it the selection is the empty frame.
\<close>

theorem df_filtered_selects:
  "df_filtered full_df T = filter (\<lambda>r. Time r = T) full_df \<and>
   subseq (df_filtered full_df T) full_df \<and>
   (\<forall>r \<in> set (df_filtered full_df T). Time r = T) \<and>
   (\<forall>r \<in> set full_df. Time r = T \<longrightarrow> r \<in> set (df_filtered full_df T)) \<and>
   (T \<notin> Time ` set full_df \<longrightarrow> df_filtered full_df T = [])"
proof -
  have eq: "df_filtered full_df T = filter (\<lambda>r. Time r = T) full_df"
    by (simp add: df_filtered_def select_rows_filter)
  have "T \<notin> Time ` set full_df \<longrightarrow> filter (\<lambda>r. Time r = T) full_df = []"
    by (auto simp: filter_empty_conv)
  then show ?thesis unfolding eq by auto
qed

theorem df_filtered_selects_witness:
  "df_filtered
     [\<lparr>City = ''Sapporo'', lat = 43.0618, lon = 141.3545, Time = ''T00'', Temperature = - 3\<rparr>,
      \<lparr>City = ''Sapporo'', lat = 43.0618, lon = 141.3545, Time = ''T01'', Temperature = - 4\<rparr>,
      \<lparr>City = ''Aomori'', lat = 40.8244, lon = 140.74, Time = ''T00'', Temperature = 1\<rparr>] ''T00'' =
     [\<lparr>City = ''Sapporo'', lat = 43.0618, lon = 141.3545, Time = ''T00'', Temperature = - 3\<rparr>,
      \<lparr>City = ''Aomori'', lat = 40.8244, lon = 140.74, Time = ''T00'', Temperature = 1\<rparr>] \<and>
   ''T07'' \<notin> Time ` set
     [\<lparr>City = ''Sapporo'', lat = 43.0618, lon = 141.3545, Time = ''T00'', Temperature = - 3 :: real\<rparr>,
      \<lparr>City = ''Sapporo'', lat = 43.0618, lon = 141.3545, Time = ''T01'', Temperature = - 4\<rparr>,
      \<lparr>City = ''Aomori'', lat = 40.8244, lon = 140.74, Time = ''T00'', Temperature = 1\<rparr>] \<and>
   df_filtered
     [\<lparr>City = ''Sapporo'', lat = 43.0618, lon = 141.3545, Time = ''T00'', Temperature = - 3\<rparr>,
      \<lparr>City = ''Sapporo'', lat = 43.0618, lon = 141.3545, Time = ''T01'', Temperature = - 4\<rparr>,
      \<lparr>City = ''Aomori'', lat = 40.8244, lon = 140.74, Time = ''T00'', Temperature = 1\<rparr>] ''T07'' = []"
  using df_filtered_selects
    [of "[\<lparr>City = ''Sapporo'', lat = 43.0618, lon = 141.3545, Time = ''T00'', Temperature = - 3\<rparr>,
      \<lparr>City = ''Sapporo'', lat = 43.0618, lon = 141.3545, Time = ''T01'', Temperature = - 4\<rparr>,
      \<lparr>City = ''Aomori'', lat = 40.8244, lon = 140.74, Time = ''T00'', Temperature = 1\<rparr>]" "''T00''"]
    df_filtered_selects
    [of "[\<lparr>City = ''Sapporo'', lat = 43.0618, lon = 141.3545, Time = ''T00'', Temperature = - 3\<rparr>,
      \<lparr>City = ''Sapporo'', lat = 43.0618, lon = 141.3545, Time = ''T01'', Temperature = - 4\<rparr>,
      \<lparr>City = ''Aomori'', lat = 40.8244, lon = 140.74, Time = ''T00'', Temperature = 1\<rparr>]" "''T07''"]
  by simp

section \<open>The temporal index\<close>

lemma set_unique_from: "set (unique_from seen xs) = set xs - set seen"
  by (induction xs arbitrary: seen) auto

lemma distinct_unique_from: "distinct (unique_from seen xs)"
  by (induction xs arbitrary: seen) (auto simp: set_unique_from)

lemma subseq_unique_from: "subseq (unique_from seen xs) xs"
  by (induction xs arbitrary: seen) auto

lemma unique_from_first_seen:
  "unique_from seen xs =
     map (\<lambda>i. xs ! i) (filter (\<lambda>i. xs ! i \<notin> set seen \<union> set (take i xs)) [0..<length xs])"
proof (induction xs arbitrary: seen)
  case Nil
  then show ?case by simp
next
  case (Cons x xs)
  have upt: "[0..<length (x # xs)] = 0 # map Suc [0..<length xs]"
    by (simp add: upt_conv_Cons map_Suc_upt del: upt_Suc)
  show ?case
  proof (cases "x \<in> set seen")
    case True
    then have "\<And>a P. (a \<notin> set seen \<and> a \<noteq> x \<and> P) = (a \<notin> set seen \<and> P)" by auto
    with True show ?thesis
      unfolding upt by (simp add: Cons.IH [of seen] filter_map comp_def)
  next
    case False
    then show ?thesis
      unfolding upt by (simp add: Cons.IH [of "x # seen"] filter_map comp_def conj_commute conj_left_commute)
  qed
qed

lemma unique_first_seen: "unique xs = first_seen xs"
  by (simp add: unique_def first_seen_def unique_from_first_seen)

lemma unique_from_distinct:
  "distinct xs \<Longrightarrow> set xs \<inter> set seen = {} \<Longrightarrow> unique_from seen xs = xs"
  by (induction xs arbitrary: seen) auto

text \<open>
  C5. The index holds the timestamps of the frame in first-seen order: it is the
  sequence of the values at those positions of the \<open>Time\<close> column where a value occurs
  for the first time. It has no duplicates, it is a subsequence of the column (so no
  two of its entries are swapped, whatever the order of the input), a column without
  duplicates is returned as it is, and every timestamp of the index is the timestamp of
  some row.
\<close>

theorem time_options_first_seen:
  "time_options full_df = first_seen (map Time full_df) \<and>
   distinct (time_options full_df) \<and>
   subseq (time_options full_df) (map Time full_df) \<and>
   set (time_options full_df) = Time ` set full_df \<and>
   (\<forall>t \<in> set (time_options full_df). \<exists>r \<in> set full_df. Time r = t) \<and>
   (distinct (map Time full_df) \<longrightarrow> time_options full_df = map Time full_df)"
proof -
  have "set (time_options full_df) = Time ` set full_df"
    by (simp add: time_options_def unique_def set_unique_from)
  moreover have "distinct (map Time full_df) \<longrightarrow> time_options full_df = map Time full_df"
    by (simp add: time_options_def unique_def unique_from_distinct)
  ultimately show ?thesis
    by (auto simp: time_options_def unique_first_seen [symmetric] unique_def
        distinct_unique_from subseq_unique_from)
qed

theorem time_options_first_seen_witness:
  "time_options
     [\<lparr>City = ''Sapporo'', lat = 43.0618, lon = 141.3545, Time = ''T09'', Temperature = 1\<rparr>,
      \<lparr>City = ''Aomori'', lat = 40.8244, lon = 140.74, Time = ''T08'', Temperature = 2\<rparr>,
      \<lparr>City = ''Sapporo'', lat = 43.0618, lon = 141.3545, Time = ''T10'', Temperature = 3\<rparr>,
      \<lparr>City = ''Aomori'', lat = 40.8244, lon = 140.74, Time = ''T09'', Temperature = 4\<rparr>]
     = [''T09'', ''T08'', ''T10''] \<and>
   distinct (map Time
     [\<lparr>City = ''Sapporo'', lat = 43.0618, lon = 141.3545, Time = ''T09'', Temperature = 1 :: real\<rparr>,
      \<lparr>City = ''Aomori'', lat = 40.8244, lon = 140.74, Time = ''T08'', Temperature = 2\<rparr>]) \<and>
   time_options
     [\<lparr>City = ''Sapporo'', lat = 43.0618, lon = 141.3545, Time = ''T09'', Temperature = 1\<rparr>,
      \<lparr>City = ''Aomori'', lat = 40.8244, lon = 140.74, Time = ''T08'', Temperature = 2\<rparr>]
     = [''T09'', ''T08'']"
  using time_options_first_seen
    [of "[\<lparr>City = ''Sapporo'', lat = 43.0618, lon = 141.3545, Time = ''T09'', Temperature = 1\<rparr>,
      \<lparr>City = ''Aomori'', lat = 40.8244, lon = 140.74, Time = ''T08'', Temperature = 2\<rparr>,
      \<lparr>City = ''Sapporo'', lat = 43.0618, lon = 141.3545, Time = ''T10'', Temperature = 3\<rparr>,
      \<lparr>City = ''Aomori'', lat = 40.8244, lon = 140.74, Time = ''T09'', Temperature = 4\<rparr>]"]
    time_options_first_seen
    [of "[\<lparr>City = ''Sapporo'', lat = 43.0618, lon = 141.3545, Time = ''T09'', Temperature = 1\<rparr>,
      \<lparr>City = ''Aomori'', lat = 40.8244, lon = 140.74, Time = ''T08'', Temperature = 2\<rparr>]"]
  by (simp add: first_seen_def upt_conv_Cons del: upt_Suc)

section \<open>The default position of the slider\<close>

lemma list_index_Some:
  "list_index xs v = Some i \<Longrightarrow> i < length xs \<and> xs ! i = v \<and> v \<notin> set (take i xs)"
  by (induction xs arbitrary: i) (auto split: if_splits option.splits)

lemma list_index_None: "list_index xs v = None \<longleftrightarrow> v \<notin> set xs"
  by (induction xs) (auto split: option.splits)

lemma digit_table:
  "\<forall>k \<in> {0..<10}. (of_char (''0123456789'' ! k) :: nat) = 48 + k"
  by code_simp

lemma of_char_digit: "(of_char (digit d) :: nat) = 48 + d mod 10"
  using digit_table unfolding digit_def by simp

lemma digit_value_digit: "digit_value (digit d) = d mod 10"
  by (simp add: digit_value_def of_char_digit)

lemma is_digit_digit: "is_digit (digit d)"
proof -
  have "d mod 10 \<le> 9" using mod_less_divisor [of 10 d] by linarith
  then show ?thesis by (simp add: is_digit_def of_char_digit)
qed

lemma decimal_pad2: "n < 100 \<Longrightarrow> decimal (pad2 n) = n"
  by (simp add: decimal_def pad2_def digit_value_digit)

lemma show_nat_4:
  assumes "1000 \<le> n" "n < 10000"
  shows "show_nat n = [digit (n div 1000), digit (n div 100), digit (n div 10), digit n]"
proof -
  have c: "\<not> n < 10" "\<not> n div 10 < 10" "\<not> n div 100 < 10" "n div 1000 < 10"
    using assms by simp_all
  have d: "n div 10 div 10 = n div 100" "n div 100 div 10 = n div 1000"
    by (simp_all add: div_mult2_eq [symmetric])
  have "show_nat (n div 1000) = [digit (n div 1000)]"
    using c(4) by (simp add: show_nat.simps [of "n div 1000"])
  then have "show_nat (n div 100) = [digit (n div 1000), digit (n div 100)]"
    using c(3) by (simp add: show_nat.simps [of "n div 100"] d)
  then have "show_nat (n div 10) = [digit (n div 1000), digit (n div 100), digit (n div 10)]"
    using c(2) by (simp add: show_nat.simps [of "n div 10"] d)
  then show ?thesis
    using c(1) by (simp add: show_nat.simps [of n])
qed

lemma decimal_show_nat: "decimal (show_nat n) = n"
proof (induction n rule: show_nat.induct)
  case (1 n)
  show ?case
  proof (cases "n < 10")
    case True
    then show ?thesis by (simp add: show_nat.simps [of n] decimal_def digit_value_digit)
  next
    case False
    with 1 have "decimal (show_nat (n div 10)) = n div 10" by simp
    with False show ?thesis
      by (simp add: show_nat.simps [of n] decimal_def digit_value_digit)
  qed
qed

lemma current_hour_iso_truncates:
  "current_hour_iso (now\<lparr>minute := m, second := s, microsecond := u\<rparr>) = current_hour_iso now"
  by (simp add: current_hour_iso_def)

lemma current_hour_iso_reads:
  assumes ok: "clock_ok now"
  shows "length (current_hour_iso now) = 16"
    and "current_hour_iso now ! 4 = CHR ''-''"
    and "current_hour_iso now ! 7 = CHR ''-''"
    and "current_hour_iso now ! 10 = CHR ''T''"
    and "drop 13 (current_hour_iso now) = '':00''"
    and "decimal (take 4 (current_hour_iso now)) = year now"
    and "decimal (take 2 (drop 5 (current_hour_iso now))) = month now"
    and "decimal (take 2 (drop 8 (current_hour_iso now))) = day now"
    and "decimal (take 2 (drop 11 (current_hour_iso now))) = hour now"
    and "\<forall>i \<in> {0, 1, 2, 3, 5, 6, 8, 9, 11, 12}. is_digit (current_hour_iso now ! i)"
proof -
  from ok have r: "1000 \<le> year now" "year now < 10000" "month now < 100" "day now < 100"
      "hour now < 100"
    by (simp_all add: clock_ok_def)
  have y: "show_nat (year now) =
      [digit (year now div 1000), digit (year now div 100), digit (year now div 10),
       digit (year now)]"
    by (rule show_nat_4 [OF r(1,2)])
  have s: "current_hour_iso now =
      [digit (year now div 1000), digit (year now div 100), digit (year now div 10),
       digit (year now), CHR ''-'', digit (month now div 10), digit (month now), CHR ''-'',
       digit (day now div 10), digit (day now), CHR ''T'', digit (hour now div 10),
       digit (hour now), CHR '':'', CHR ''0'', CHR ''0'']"
    by (simp add: current_hour_iso_def y pad2_def)
  show "length (current_hour_iso now) = 16"
    and "current_hour_iso now ! 4 = CHR ''-''"
    and "current_hour_iso now ! 7 = CHR ''-''"
    and "current_hour_iso now ! 10 = CHR ''T''"
    and "drop 13 (current_hour_iso now) = '':00''"
    unfolding s by simp_all
  have "take 4 (current_hour_iso now) = show_nat (year now)"
    unfolding s y by simp
  then show "decimal (take 4 (current_hour_iso now)) = year now"
    by (simp add: decimal_show_nat)
  have "take 2 (drop 5 (current_hour_iso now)) = pad2 (month now)"
    unfolding s pad2_def by simp
  then show "decimal (take 2 (drop 5 (current_hour_iso now))) = month now"
    by (simp add: decimal_pad2 [OF r(3)])
  have "take 2 (drop 8 (current_hour_iso now)) = pad2 (day now)"
    unfolding s pad2_def by simp
  then show "decimal (take 2 (drop 8 (current_hour_iso now))) = day now"
    by (simp add: decimal_pad2 [OF r(4)])
  have "take 2 (drop 11 (current_hour_iso now)) = pad2 (hour now)"
    unfolding s pad2_def by simp
  then show "decimal (take 2 (drop 11 (current_hour_iso now))) = hour now"
    by (simp add: decimal_pad2 [OF r(5)])
  show "\<forall>i \<in> {0, 1, 2, 3, 5, 6, 8, 9, 11, 12}. is_digit (current_hour_iso now ! i)"
    unfolding s by (simp add: is_digit_digit)
qed

lemma current_hour_iso_inj:
  assumes "clock_ok a" "clock_ok b" "current_hour_iso a = current_hour_iso b"
  shows "year a = year b \<and> month a = month b \<and> day a = day b \<and> hour a = hour b"
  using current_hour_iso_reads(6-9) [OF assms(1)] current_hour_iso_reads(6-9) [OF assms(2)]
  unfolding assms(3) by simp

text \<open>
  C6. The current hour is the clock's date and hour written as \<open>YYYY-MM-DDTHH:00\<close>:
  for a clock with a year of four digits the string has 16 characters, its digit
  groups read as decimal numerals are the clock's year, month, day and hour, and two
  clocks give the same string only when they agree on these four; minutes, seconds and
  microseconds do not enter it. When that string is among the timestamps, the default
  index is its position (the first one, should it occur more than once); when it is
  not, the default index is 0. No clock value and no timestamp sequence makes the step
  fail.
\<close>

theorem default_index_fallback:
  "(current_hour_iso now \<in> set opts \<longrightarrow>
      default_index opts now < length opts \<and>
      opts ! default_index opts now = current_hour_iso now \<and>
      current_hour_iso now \<notin> set (take (default_index opts now) opts)) \<and>
   (current_hour_iso now \<notin> set opts \<longrightarrow> default_index opts now = 0) \<and>
   current_hour_iso (now\<lparr>minute := m, second := s, microsecond := u\<rparr>) = current_hour_iso now \<and>
   (clock_ok now \<longrightarrow>
      length (current_hour_iso now) = 16 \<and>
      current_hour_iso now ! 4 = CHR ''-'' \<and> current_hour_iso now ! 7 = CHR ''-'' \<and>
      current_hour_iso now ! 10 = CHR ''T'' \<and> drop 13 (current_hour_iso now) = '':00'' \<and>
      decimal (take 4 (current_hour_iso now)) = year now \<and>
      decimal (take 2 (drop 5 (current_hour_iso now))) = month now \<and>
      decimal (take 2 (drop 8 (current_hour_iso now))) = day now \<and>
      decimal (take 2 (drop 11 (current_hour_iso now))) = hour now \<and>
      (\<forall>i \<in> {0, 1, 2, 3, 5, 6, 8, 9, 11, 12}. is_digit (current_hour_iso now ! i))) \<and>
   (clock_ok now \<and> clock_ok now' \<and> current_hour_iso now = current_hour_iso now' \<longrightarrow>
      year now = year now' \<and> month now = month now' \<and> day now = day now' \<and>
      hour now = hour now')"
proof -
  have fmt: "clock_ok now \<longrightarrow>
      length (current_hour_iso now) = 16 \<and>
      current_hour_iso now ! 4 = CHR ''-'' \<and> current_hour_iso now ! 7 = CHR ''-'' \<and>
      current_hour_iso now ! 10 = CHR ''T'' \<and> drop 13 (current_hour_iso now) = '':00'' \<and>
      decimal (take 4 (current_hour_iso now)) = year now \<and>
      decimal (take 2 (drop 5 (current_hour_iso now))) = month now \<and>
      decimal (take 2 (drop 8 (current_hour_iso now))) = day now \<and>
      decimal (take 2 (drop 11 (current_hour_iso now))) = hour now \<and>
      (\<forall>i \<in> {0, 1, 2, 3, 5, 6, 8, 9, 11, 12}. is_digit (current_hour_iso now ! i))"
    using current_hour_iso_reads [of now] by blast
  have inj: "clock_ok now \<and> clock_ok now' \<and> current_hour_iso now = current_hour_iso now' \<longrightarrow>
      year now = year now' \<and> month now = month now' \<and> day now = day now' \<and>
      hour now = hour now'"
    using current_hour_iso_inj [of now now'] by blast
  have tr: "current_hour_iso (now\<lparr>minute := m, second := s, microsecond := u\<rparr>) =
      current_hour_iso now"
    by (rule current_hour_iso_truncates)
  have idx: "(current_hour_iso now \<in> set opts \<longrightarrow>
      default_index opts now < length opts \<and>
      opts ! default_index opts now = current_hour_iso now \<and>
      current_hour_iso now \<notin> set (take (default_index opts now) opts)) \<and>
   (current_hour_iso now \<notin> set opts \<longrightarrow> default_index opts now = 0)"
  proof (cases "list_index opts (current_hour_iso now)")
    case None
    then have d: "default_index opts now = 0"
      by (simp add: default_index_def)
    from None have "current_hour_iso now \<notin> set opts"
      by (simp add: list_index_None)
    with d show ?thesis by simp
  next
    case (Some i)
    then have d: "default_index opts now = i"
      by (simp add: default_index_def)
    from Some have "current_hour_iso now \<in> set opts"
      using list_index_None [of opts "current_hour_iso now"] by simp
    with d list_index_Some [OF Some] show ?thesis by simp
  qed
  from idx tr fmt inj show ?thesis by blast
qed

theorem default_index_fallback_witness:
  "clock_ok \<lparr>year = 2026, month = 11, day = 3, hour = 14, minute = 37, second = 12,
      microsecond = 5\<rparr> \<and>
   current_hour_iso \<lparr>year = 2026, month = 11, day = 3, hour = 14, minute = 37, second = 12,
      microsecond = 5\<rparr> = ''2026-11-03T14:00'' \<and>
   decimal (take 4 ''2026-11-03T14:00'') = 2026 \<and>
   decimal (take 2 (drop 11 ''2026-11-03T14:00'')) = 14 \<and>
   ''2026-11-03T14:00'' \<in> set [''2026-11-03T00:00'', ''2026-11-03T13:00'', ''2026-11-03T14:00''] \<and>
   default_index [''2026-11-03T00:00'', ''2026-11-03T13:00'', ''2026-11-03T14:00'']
     \<lparr>year = 2026, month = 11, day = 3, hour = 14, minute = 37, second = 12,
      microsecond = 5\<rparr> = 2 \<and>
   ''2026-11-03T14:00'' \<notin> set [''2026-11-04T00:00'', ''2026-11-04T01:00''] \<and>
   default_index [''2026-11-04T00:00'', ''2026-11-04T01:00'']
     \<lparr>year = 2026, month = 11, day = 3, hour = 14, minute = 37, second = 12,
      microsecond = 5\<rparr> = 0"
proof -
  let ?now = "\<lparr>year = 2026, month = 11, day = 3, hour = 14, minute = 37, second = 12,
      microsecond = 5\<rparr>"
  let ?day = "[''2026-11-03T00:00'', ''2026-11-03T13:00'', ''2026-11-03T14:00'']"
  let ?next = "[''2026-11-04T00:00'', ''2026-11-04T01:00'']"
  have ok: "clock_ok ?now" by (simp add: clock_ok_def)
  have y: "show_nat 2026 = ''2026''"
    by (simp add: show_nat_4 digit_def)
  have cur: "current_hour_iso ?now = ''2026-11-03T14:00''"
    by (simp add: current_hour_iso_def y pad2_def digit_def)
  have a: "''2026-11-03T14:00'' \<in> set ?day" by simp
  have b: "''2026-11-03T14:00'' \<notin> set ?next" by simp
  have "clock_ok ?now \<longrightarrow>
      decimal (take 4 (current_hour_iso ?now)) = year ?now \<and>
      decimal (take 2 (drop 11 (current_hour_iso ?now))) = hour ?now"
    using default_index_fallback [of ?now] by blast
  with ok have rd: "decimal (take 4 ''2026-11-03T14:00'') = 2026"
      "decimal (take 2 (drop 11 ''2026-11-03T14:00'')) = 14"
    unfolding cur by simp_all
  have "current_hour_iso ?now \<in> set ?day \<longrightarrow>
      default_index ?day ?now < length ?day \<and>
      ?day ! default_index ?day ?now = current_hour_iso ?now \<and>
      current_hour_iso ?now \<notin> set (take (default_index ?day ?now) ?day)"
    using default_index_fallback [of ?now ?day] by (rule conjunct1)
  with a have "default_index ?day ?now < length ?day \<and>
      ?day ! default_index ?day ?now = ''2026-11-03T14:00''"
    unfolding cur by blast
  then have i: "default_index ?day ?now = 2"
    by (cases "default_index ?day ?now = 0"; cases "default_index ?day ?now = 1") auto
  have "current_hour_iso ?now \<notin> set ?next \<longrightarrow> default_index ?next ?now = 0"
    using default_index_fallback [of ?now ?next] by (rule conjunct1 [OF conjunct2])
  with b have z: "default_index ?next ?now = 0"
    unfolding cur by blast
  from ok cur rd a i b z show ?thesis by blast
qed

section \<open>The fetch\<close>

lemma city_records_lists:
  "has_lists d \<Longrightarrow>
   city_records name la lo d = Inr (zip_records name la lo (times_of d) (temps_of d))"
  by (auto simp: has_lists_def seq_of_def hourly_field_def city_records_def times_of_def
      temps_of_def split: sum.splits option.splits pyval.splits)

lemma length_zip_records: "length (zip_records name la lo ts vs) = min (length ts) (length vs)"
  by (simp add: zip_records_def)

lemma nth_zip_records:
  "j < min (length ts) (length vs) \<Longrightarrow>
   zip_records name la lo ts vs ! j =
     \<lparr>City = name, lat = la, lon = lo, Time = ts ! j, Temperature = vs ! j\<rparr>"
  by (simp add: zip_records_def)

lemma fetch_loop_lists:
  "\<forall>d \<in> set ds. has_lists d \<Longrightarrow> i + length ds \<le> length cat \<Longrightarrow>
   fetch_loop cat i ds acc = Inr (acc @ concat (map (point_rows cat) (enumerate i ds)))"
proof (induction ds arbitrary: i acc)
  case Nil
  then show ?case by simp
next
  case (Cons d ds)
  from Cons.prems have d: "has_lists d" and i: "i < length (city_names cat)"
    by (simp_all add: city_names_def)
  from Cons.prems have rest: "\<forall>d \<in> set ds. has_lists d" "Suc i + length ds \<le> length cat"
    by simp_all
  show ?case
    using i by (simp add: city_records_lists [OF d] Cons.IH [OF rest] point_rows_def)
qed

lemma city_records_unusable:
  "field_unusable d ''time'' \<or> field_unusable d ''temperature_2m'' \<Longrightarrow>
   \<exists>e. city_records name la lo d = Inl e"
  by (auto simp: field_unusable_def hourly_field_def city_records_def
      split: sum.splits option.splits)

lemma fetch_loop_unusable:
  "\<exists>d \<in> set ds. field_unusable d ''time'' \<or> field_unusable d ''temperature_2m'' \<Longrightarrow>
   \<exists>e. fetch_loop cat i ds acc = Inl e"
proof (induction ds arbitrary: i acc)
  case Nil
  then show ?case by simp
next
  case (Cons d ds)
  show ?case
  proof (cases "city_records (city_names cat ! i) (lats cat ! i) (lons cat ! i) d")
    case (Inl e)
    then show ?thesis by simp
  next
    case (Inr rs)
    with city_records_unusable [of d "city_names cat ! i" "lats cat ! i" "lons cat ! i"]
    have "\<not> (field_unusable d ''time'' \<or> field_unusable d ''temperature_2m'')"
      by auto
    with Cons.prems have "\<exists>d \<in> set ds. field_unusable d ''time'' \<or> field_unusable d ''temperature_2m''"
      by auto
    from Cons.IH [OF this] Inr show ?thesis by simp
  qed
qed


lemma try_block_ok:
  "ok_status st \<Longrightarrow>
   try_block cat (Inr \<lparr>status_code = st, json_body = Some data\<rparr>) =
     fetch_loop cat 0 (data_list_of data) []"
  by (auto simp: try_block_def raise_for_status_def response_json_def ok_status_def)

lemma fetch_lists:
  assumes "ok_status st" "length ds \<le> length cat" "\<forall>d \<in> set ds. has_lists d"
  shows "fetch_with cat (Inr \<lparr>status_code = st, json_body = Some (PList ds)\<rparr>) =
     (concat (map (point_rows cat) (enumerate 0 ds)), [])"
  using assms fetch_loop_lists [of ds 0 cat "[]"]
  by (simp add: fetch_with_def try_block_ok data_list_of_def)

lemma data_list_of_non_list: "(\<forall>xs. data \<noteq> PList xs) \<Longrightarrow> data_list_of data = [data]"
  by (cases data) (simp_all add: data_list_of_def)

lemma data_list_of_list: "data_list_of (PList xs) = xs"
  by (simp add: data_list_of_def)

lemma try_block_shape:
  "(\<forall>xs. data \<noteq> PList xs) \<Longrightarrow>
   try_block cat (Inr \<lparr>status_code = st, json_body = Some data\<rparr>) =
   try_block cat (Inr \<lparr>status_code = st, json_body = Some (PList [data])\<rparr>)"
  by (simp add: try_block_def response_json_def raise_for_status_def data_list_of_non_list
      data_list_of_list del: fetch_loop.simps)

lemma try_block_body:
  "ok_status (status_code r) \<Longrightarrow> json_body r = Some data \<Longrightarrow>
   try_block cat (Inr r) = fetch_loop cat 0 (data_list_of data) []"
  by (auto simp: try_block_def raise_for_status_def response_json_def ok_status_def)

lemma fetch_loop_too_many:
  "i \<le> length cat \<Longrightarrow> length cat < i + length ds \<Longrightarrow> \<exists>e. fetch_loop cat i ds acc = Inl e"
proof (induction ds arbitrary: i acc)
  case Nil
  then show ?case by simp
next
  case (Cons d ds)
  show ?case
  proof (cases "length cat \<le> i")
    case True
    then show ?thesis by (simp add: city_names_def)
  next
    case False
    then have "Suc i \<le> length cat" "length cat < Suc i + length ds"
      using Cons.prems by simp_all
    from Cons.IH [OF this] False show ?thesis
      by (auto simp: city_names_def split: sum.splits)
  qed
qed

lemma fetch_with_raises: "try_block cat net = Inl e \<Longrightarrow> fetch_with cat net = ([], [e])"
  by (simp add: fetch_with_def)

lemma fetch_body_lists:
  assumes "ok_status st" "length (data_list_of data) \<le> length cat"
    "\<forall>d \<in> set (data_list_of data). has_lists d"
  shows "fetch_with cat (Inr \<lparr>status_code = st, json_body = Some data\<rparr>) =
     (concat (map (point_rows cat) (enumerate 0 (data_list_of data))), [])"
  using assms fetch_loop_lists [of "data_list_of data" 0 cat "[]"]
  by (simp add: fetch_with_def try_block_ok)

lemma point_rows_nth:
  assumes "i < length cat"
  shows "length (point_rows cat (i, d)) = min (length (times_of d)) (length (temps_of d))"
    and "j < min (length (times_of d)) (length (temps_of d)) \<Longrightarrow>
      point_rows cat (i, d) ! j =
        \<lparr>City = fst (cat ! i), lat = fst (snd (cat ! i)), lon = snd (snd (cat ! i)),
          Time = times_of d ! j, Temperature = temps_of d ! j\<rparr>"
  using assms
  by (simp_all add: point_rows_def length_zip_records nth_zip_records city_names_def lats_def
      lons_def)

lemma city_records_usable:
  "\<not> field_unusable d ''time'' \<Longrightarrow> \<not> field_unusable d ''temperature_2m'' \<Longrightarrow>
   \<exists>rs. city_records name la lo d = Inr rs"
  by (auto simp: field_unusable_def hourly_field_def city_records_def
      split: sum.splits option.splits)

lemma fetch_loop_usable:
  "\<forall>d \<in> set ds. \<not> field_unusable d ''time'' \<and> \<not> field_unusable d ''temperature_2m'' \<Longrightarrow>
   i + length ds \<le> length cat \<Longrightarrow> \<exists>rows. fetch_loop cat i ds acc = Inr rows"
proof (induction ds arbitrary: i acc)
  case Nil
  then show ?case by simp
next
  case (Cons d ds)
  from Cons.prems have i: "i < length (city_names cat)"
    by (simp add: city_names_def)
  from Cons.prems have "\<not> field_unusable d ''time''" "\<not> field_unusable d ''temperature_2m''"
    by simp_all
  from city_records_usable [OF this] obtain rs
    where rs: "city_records (city_names cat ! i) (lats cat ! i) (lons cat ! i) d = Inr rs"
    by blast
  from Cons.prems
  have "\<forall>d \<in> set ds. \<not> field_unusable d ''time'' \<and> \<not> field_unusable d ''temperature_2m''"
    "Suc i + length ds \<le> length cat"
    by simp_all
  from Cons.IH [OF this] i rs show ?case by simp
qed

lemmas fetch_eval = has_lists_def seq_of_def hourly_field_def times_of_def temps_of_def
  point_rows_def zip_records_def cities_def city_names_def lats_def lons_def ok_status_def
  field_unusable_def enumerate_eq_zip


text \<open>
  C10. A point whose \<open>hourly.time\<close> and \<open>hourly.temperature_2m\<close> are lists of lengths
  \<open>m\<close> and \<open>n\<close> yields \<open>min m n\<close> records, the \<open>j\<close>-th made of the \<open>j\<close>-th timestamp and
  the \<open>j\<close>-th temperature. A difference of the lengths raises nothing: the loop goes on
  to the next point with the records gathered so far kept in front, and a response all
  of whose points carry lists (at most as many as the catalog has) is returned as the
  concatenation of the points' records, with no error shown.
\<close>

theorem fetch_pairs_min:
  "(has_lists d \<longrightarrow>
      city_records name la lo d = Inr (zip_records name la lo (times_of d) (temps_of d))) \<and>
   length (zip_records name la lo ts vs) = min (length ts) (length vs) \<and>
   (\<forall>j < min (length ts) (length vs).
      zip_records name la lo ts vs ! j =
        \<lparr>City = name, lat = la, lon = lo, Time = ts ! j, Temperature = vs ! j\<rparr>) \<and>
   (has_lists d \<and> i < length cat \<longrightarrow>
      fetch_loop cat i (d # rest) acc = fetch_loop cat (Suc i) rest (acc @ point_rows cat (i, d))) \<and>
   (ok_status st \<and> length ds \<le> length cities \<and> (\<forall>d \<in> set ds. has_lists d) \<longrightarrow>
      fetch_forecast_data (Inr \<lparr>status_code = st, json_body = Some (PList ds)\<rparr>) =
        (concat (map (point_rows cities) (enumerate 0 ds)), []))"
proof -
  have step: "has_lists d \<and> i < length cat \<longrightarrow>
      fetch_loop cat i (d # rest) acc = fetch_loop cat (Suc i) rest (acc @ point_rows cat (i, d))"
    by (simp add: city_records_lists point_rows_def city_names_def)
  have whole: "ok_status st \<and> length ds \<le> length cities \<and> (\<forall>d \<in> set ds. has_lists d) \<longrightarrow>
      fetch_forecast_data (Inr \<lparr>status_code = st, json_body = Some (PList ds)\<rparr>) =
        (concat (map (point_rows cities) (enumerate 0 ds)), [])"
    using fetch_lists [of st ds cities] by (simp add: fetch_forecast_data_def)
  from step whole show ?thesis
    by (simp add: city_records_lists length_zip_records nth_zip_records)
qed

theorem fetch_pairs_min_witness:
  "ok_status 200 \<and>
   length [PDict [(''latitude'', PFloat 43.05),
             (''hourly'', PDict [(''time'', PList [PStr ''2026-11-03T00:00'', PStr ''2026-11-03T01:00'']),
                                 (''temperature_2m'', PList [PFloat 7.5])])],
           PDict [(''hourly'', PDict [(''time'', PList [PStr ''2026-11-03T00:00'']),
                                 (''temperature_2m'', PList [PFloat 9, PInt 10])])]] \<le> length cities \<and>
   has_lists (PDict [(''latitude'', PFloat 43.05),
             (''hourly'', PDict [(''time'', PList [PStr ''2026-11-03T00:00'', PStr ''2026-11-03T01:00'']),
                                 (''temperature_2m'', PList [PFloat 7.5])])]) \<and>
   has_lists (PDict [(''hourly'', PDict [(''time'', PList [PStr ''2026-11-03T00:00'']),
                                 (''temperature_2m'', PList [PFloat 9, PInt 10])])]) \<and>
   fetch_forecast_data (Inr \<lparr>status_code = 200, json_body = Some (PList
     [PDict [(''latitude'', PFloat 43.05),
             (''hourly'', PDict [(''time'', PList [PStr ''2026-11-03T00:00'', PStr ''2026-11-03T01:00'']),
                                 (''temperature_2m'', PList [PFloat 7.5])])],
      PDict [(''hourly'', PDict [(''time'', PList [PStr ''2026-11-03T00:00'']),
                                 (''temperature_2m'', PList [PFloat 9, PInt 10])])]])\<rparr>) =
   ([\<lparr>City = ''Sapporo'', lat = 43.0618, lon = 141.3545, Time = PStr ''2026-11-03T00:00'',
      Temperature = PFloat 7.5\<rparr>,
     \<lparr>City = ''Aomori'', lat = 40.8244, lon = 140.74, Time = PStr ''2026-11-03T00:00'',
      Temperature = PFloat 9\<rparr>], [])"
proof -
  let ?d1 = "PDict [(''latitude'', PFloat 43.05),
             (''hourly'', PDict [(''time'', PList [PStr ''2026-11-03T00:00'', PStr ''2026-11-03T01:00'']),
                                 (''temperature_2m'', PList [PFloat 7.5])])]"
  let ?d2 = "PDict [(''hourly'', PDict [(''time'', PList [PStr ''2026-11-03T00:00'']),
                                 (''temperature_2m'', PList [PFloat 9, PInt 10])])]"
  have h: "ok_status 200 \<and> length [?d1, ?d2] \<le> length cities \<and> (\<forall>d \<in> set [?d1, ?d2]. has_lists d)"
    by (simp add: fetch_eval)
  have "ok_status 200 \<and> length [?d1, ?d2] \<le> length cities \<and> (\<forall>d \<in> set [?d1, ?d2]. has_lists d) \<longrightarrow>
      fetch_forecast_data (Inr \<lparr>status_code = 200, json_body = Some (PList [?d1, ?d2])\<rparr>) =
        (concat (map (point_rows cities) (enumerate 0 [?d1, ?d2])), [])"
    using fetch_pairs_min [where st = 200 and ds = "[?d1, ?d2]"] by blast
  with h have "fetch_forecast_data (Inr \<lparr>status_code = 200, json_body = Some (PList [?d1, ?d2])\<rparr>) =
        (concat (map (point_rows cities) (enumerate 0 [?d1, ?d2])), [])"
    by blast
  also have "concat (map (point_rows cities) (enumerate 0 [?d1, ?d2])) =
    [\<lparr>City = ''Sapporo'', lat = 43.0618, lon = 141.3545, Time = PStr ''2026-11-03T00:00'',
      Temperature = PFloat 7.5\<rparr>,
     \<lparr>City = ''Aomori'', lat = 40.8244, lon = 140.74, Time = PStr ''2026-11-03T00:00'',
      Temperature = PFloat 9\<rparr>]"
    by (simp add: fetch_eval)
  finally show ?thesis using h by simp
qed


text \<open>
  C3, as the code has it. A difference between the lengths of \<open>hourly.time\<close> and
  \<open>hourly.temperature_2m\<close> is not a failure. For a response with a status below 400 or
  from 600 on, a body (a list of points or a single point) of at most as many points as
  the catalog has, and lists in both fields of every point, the fetch shows no error
  and returns, point after point, the records of each point: for the point at position
  \<open>i\<close> with lists of lengths \<open>m\<close> and \<open>n\<close> these are \<open>min m n\<close> records, the \<open>j\<close>-th of
  which carries the catalog's \<open>i\<close>-th name and coordinates, the \<open>j\<close>-th timestamp and
  the \<open>j\<close>-th temperature; what the longer list has beyond that is dropped.
\<close>

theorem mismatch_is_not_failure:
  assumes "ok_status st" "length (data_list_of data) \<le> length cities"
    "\<forall>d \<in> set (data_list_of data). has_lists d"
  shows "fetch_forecast_data (Inr \<lparr>status_code = st, json_body = Some data\<rparr>) =
       (concat (map (point_rows cities) (enumerate 0 (data_list_of data))), []) \<and>
     (\<forall>i < length (data_list_of data).
        length (point_rows cities (i, data_list_of data ! i)) =
          min (length (times_of (data_list_of data ! i)))
              (length (temps_of (data_list_of data ! i))) \<and>
        (\<forall>j < min (length (times_of (data_list_of data ! i)))
                  (length (temps_of (data_list_of data ! i))).
           point_rows cities (i, data_list_of data ! i) ! j =
             \<lparr>City = fst (cities ! i), lat = fst (snd (cities ! i)),
               lon = snd (snd (cities ! i)),
               Time = times_of (data_list_of data ! i) ! j,
               Temperature = temps_of (data_list_of data ! i) ! j\<rparr>))"
proof -
  have whole: "fetch_forecast_data (Inr \<lparr>status_code = st, json_body = Some data\<rparr>) =
       (concat (map (point_rows cities) (enumerate 0 (data_list_of data))), [])"
    using fetch_body_lists [OF assms] by (simp add: fetch_forecast_data_def)
  have each: "\<forall>i < length (data_list_of data).
        length (point_rows cities (i, data_list_of data ! i)) =
          min (length (times_of (data_list_of data ! i)))
              (length (temps_of (data_list_of data ! i))) \<and>
        (\<forall>j < min (length (times_of (data_list_of data ! i)))
                  (length (temps_of (data_list_of data ! i))).
           point_rows cities (i, data_list_of data ! i) ! j =
             \<lparr>City = fst (cities ! i), lat = fst (snd (cities ! i)),
               lon = snd (snd (cities ! i)),
               Time = times_of (data_list_of data ! i) ! j,
               Temperature = temps_of (data_list_of data ! i) ! j\<rparr>)"
  proof (intro allI impI)
    fix i assume "i < length (data_list_of data)"
    with assms(2) have i: "i < length cities" by simp
    show "length (point_rows cities (i, data_list_of data ! i)) =
          min (length (times_of (data_list_of data ! i)))
              (length (temps_of (data_list_of data ! i))) \<and>
        (\<forall>j < min (length (times_of (data_list_of data ! i)))
                  (length (temps_of (data_list_of data ! i))).
           point_rows cities (i, data_list_of data ! i) ! j =
             \<lparr>City = fst (cities ! i), lat = fst (snd (cities ! i)),
               lon = snd (snd (cities ! i)),
               Time = times_of (data_list_of data ! i) ! j,
               Temperature = temps_of (data_list_of data ! i) ! j\<rparr>)"
      using point_rows_nth [OF i, where d = "data_list_of data ! i"] by blast
  qed
  from whole each show ?thesis by blast
qed

theorem mismatch_is_not_failure_witness:
  "ok_status 200 \<and>
   has_lists (PDict [(''latitude'', PFloat 43.05),
             (''hourly'', PDict [(''time'', PList [PStr ''2026-11-03T00:00'', PStr ''2026-11-03T01:00'']),
                                 (''temperature_2m'', PList [PFloat 7.5])])]) \<and>
   fetch_forecast_data (Inr \<lparr>status_code = 200, json_body = Some
     (PDict [(''latitude'', PFloat 43.05),
             (''hourly'', PDict [(''time'', PList [PStr ''2026-11-03T00:00'', PStr ''2026-11-03T01:00'']),
                                 (''temperature_2m'', PList [PFloat 7.5])])])\<rparr>) =
   ([\<lparr>City = ''Sapporo'', lat = 43.0618, lon = 141.3545, Time = PStr ''2026-11-03T00:00'',
      Temperature = PFloat 7.5\<rparr>], [])"
proof -
  let ?d1 = "PDict [(''latitude'', PFloat 43.05),
             (''hourly'', PDict [(''time'', PList [PStr ''2026-11-03T00:00'', PStr ''2026-11-03T01:00'']),
                                 (''temperature_2m'', PList [PFloat 7.5])])]"
  have h: "ok_status 200" "length (data_list_of ?d1) \<le> length cities"
    "\<forall>d \<in> set (data_list_of ?d1). has_lists d"
    by (simp_all add: fetch_eval data_list_of_def)
  have g: "has_lists ?d1" by (simp add: fetch_eval)
  have "fetch_forecast_data (Inr \<lparr>status_code = 200, json_body = Some ?d1\<rparr>) =
       (concat (map (point_rows cities) (enumerate 0 (data_list_of ?d1))), [])"
    using mismatch_is_not_failure [OF h] by (rule conjunct1)
  also have "concat (map (point_rows cities) (enumerate 0 (data_list_of ?d1))) =
      [\<lparr>City = ''Sapporo'', lat = 43.0618, lon = 141.3545, Time = PStr ''2026-11-03T00:00'',
      Temperature = PFloat 7.5\<rparr>]"
    by (simp add: fetch_eval data_list_of_def)
  finally show ?thesis using h(1) g by simp
qed

text \<open>
  The claim C3 as the specification states it fails: the first point of this response
  has two timestamps and one temperature, and the fetch returns one record and shows no
  error.
\<close>

theorem mismatch_counterexample:
  "length [PStr ''2026-11-03T00:00'', PStr ''2026-11-03T01:00''] \<noteq> length [PFloat 7.5] \<and>
   fetch_forecast_data (Inr \<lparr>status_code = 200, json_body = Some (PList
     [PDict [(''latitude'', PFloat 43.05),
             (''hourly'', PDict [(''time'', PList [PStr ''2026-11-03T00:00'', PStr ''2026-11-03T01:00'']),
                                 (''temperature_2m'', PList [PFloat 7.5])])]])\<rparr>) =
   ([\<lparr>City = ''Sapporo'', lat = 43.0618, lon = 141.3545, Time = PStr ''2026-11-03T00:00'',
      Temperature = PFloat 7.5\<rparr>], [])"
  by (simp add: fetch_forecast_data_def fetch_with_def try_block_def raise_for_status_def
      response_json_def data_list_of_def city_records_def zip_records_def cities_def
      city_names_def lats_def lons_def)

text \<open>
  C7. A response that is one object and a response that is the list of that one object
  give the same result, records and errors alike, for the catalog of the source and for
  every other; the same holds for every body that is not a list. Both shapes are turned
  into the list of per-point objects first, a list being taken as it is, and the loop
  over that list is all the block does with the body.
\<close>

theorem shape_normalisation:
  "data_list_of (PDict kvs) = [PDict kvs] \<and>
   data_list_of (PList [PDict kvs]) = [PDict kvs] \<and>
   data_list_of (PList ds) = ds \<and>
   fetch_forecast_data (Inr \<lparr>status_code = st, json_body = Some (PDict kvs)\<rparr>) =
     fetch_forecast_data (Inr \<lparr>status_code = st, json_body = Some (PList [PDict kvs])\<rparr>) \<and>
   fetch_with cat (Inr \<lparr>status_code = st, json_body = Some (PDict kvs)\<rparr>) =
     fetch_with cat (Inr \<lparr>status_code = st, json_body = Some (PList [PDict kvs])\<rparr>) \<and>
   ((\<forall>xs. data \<noteq> PList xs) \<longrightarrow>
      fetch_with cat (Inr \<lparr>status_code = st, json_body = Some data\<rparr>) =
        fetch_with cat (Inr \<lparr>status_code = st, json_body = Some (PList [data])\<rparr>)) \<and>
   (ok_status st \<longrightarrow>
      try_block cat (Inr \<lparr>status_code = st, json_body = Some data\<rparr>) =
        fetch_loop cat 0 (data_list_of data) [])"
proof -
  have obj: "\<And>c. fetch_with c (Inr \<lparr>status_code = st, json_body = Some (PDict kvs)\<rparr>) =
     fetch_with c (Inr \<lparr>status_code = st, json_body = Some (PList [PDict kvs])\<rparr>)"
    by (simp add: fetch_with_def try_block_shape)
  have gen: "(\<forall>xs. data \<noteq> PList xs) \<longrightarrow>
      fetch_with cat (Inr \<lparr>status_code = st, json_body = Some data\<rparr>) =
        fetch_with cat (Inr \<lparr>status_code = st, json_body = Some (PList [data])\<rparr>)"
    using try_block_shape [of data cat st] by (simp add: fetch_with_def)
  from obj gen show ?thesis
    by (simp add: fetch_forecast_data_def try_block_ok data_list_of_list data_list_of_non_list)
qed


theorem shape_normalisation_witness:
  "ok_status 200 \<and>
   (\<forall>xs. PDict [(''latitude'', PFloat 43.05),
             (''hourly'', PDict [(''time'', PList [PStr ''2026-11-03T00:00'', PStr ''2026-11-03T01:00'']),
                                 (''temperature_2m'', PList [PFloat 7.5])])] \<noteq> PList xs) \<and>
   fetch_forecast_data (Inr \<lparr>status_code = 200, json_body = Some
     (PDict [(''latitude'', PFloat 43.05),
             (''hourly'', PDict [(''time'', PList [PStr ''2026-11-03T00:00'', PStr ''2026-11-03T01:00'']),
                                 (''temperature_2m'', PList [PFloat 7.5])])])\<rparr>) =
   ([\<lparr>City = ''Sapporo'', lat = 43.0618, lon = 141.3545, Time = PStr ''2026-11-03T00:00'',
      Temperature = PFloat 7.5\<rparr>], []) \<and>
   fetch_forecast_data (Inr \<lparr>status_code = 200, json_body = Some (PList
     [PDict [(''latitude'', PFloat 43.05),
             (''hourly'', PDict [(''time'', PList [PStr ''2026-11-03T00:00'', PStr ''2026-11-03T01:00'']),
                                 (''temperature_2m'', PList [PFloat 7.5])])]])\<rparr>) =
   ([\<lparr>City = ''Sapporo'', lat = 43.0618, lon = 141.3545, Time = PStr ''2026-11-03T00:00'',
      Temperature = PFloat 7.5\<rparr>], [])"
proof -
  let ?kvs = "[(''latitude'', PFloat 43.05),
             (''hourly'', PDict [(''time'', PList [PStr ''2026-11-03T00:00'', PStr ''2026-11-03T01:00'']),
                                 (''temperature_2m'', PList [PFloat 7.5])])]"
  have ok: "ok_status 200" by (simp add: ok_status_def)
  have nl: "\<forall>xs. PDict ?kvs \<noteq> PList xs" by simp
  have one: "fetch_forecast_data (Inr \<lparr>status_code = 200, json_body = Some (PDict ?kvs)\<rparr>) =
     ([\<lparr>City = ''Sapporo'', lat = 43.0618, lon = 141.3545, Time = PStr ''2026-11-03T00:00'',
      Temperature = PFloat 7.5\<rparr>], [])"
    by (simp add: fetch_forecast_data_def fetch_with_def try_block_def raise_for_status_def
      response_json_def data_list_of_def city_records_def zip_records_def cities_def
      city_names_def lats_def lons_def)
  have "fetch_forecast_data (Inr \<lparr>status_code = 200, json_body = Some (PDict ?kvs)\<rparr>) =
     fetch_forecast_data (Inr \<lparr>status_code = 200, json_body = Some (PList [PDict ?kvs])\<rparr>)"
    using shape_normalisation [where kvs = ?kvs and st = 200] by blast
  with one have "fetch_forecast_data (Inr \<lparr>status_code = 200, json_body = Some (PList [PDict ?kvs])\<rparr>) =
     ([\<lparr>City = ''Sapporo'', lat = 43.0618, lon = 141.3545, Time = PStr ''2026-11-03T00:00'',
      Temperature = PFloat 7.5\<rparr>], [])"
    by simp
  with ok nl one show ?thesis by blast
qed

text \<open>
  C8, as the code has it. The caller gets the empty frame and exactly one error is
  shown, which carries the exception, when the request raises, when the status is from
  400 to 599, when the body is not JSON, when \<open>hourly.time\<close> or \<open>hourly.temperature_2m\<close>
  of some point is missing or cannot be iterated (a number, a boolean, \<open>None\<close>), when the
  response has more points than the catalog, and in general whenever the block raises.
  The records of the points read before the failure are not returned: a result with an
  error has no rows. For a status outside 400 to 599 and a JSON body the fetch fails
  in no other case: a string or an object in the place of a list is read as a sequence
  and yields records.
\<close>

theorem failure_is_total:
  "fetch_forecast_data (Inl e) = ([], [e]) \<and>
   (\<not> ok_status (status_code r) \<longrightarrow>
      fetch_forecast_data (Inr r) = ([], [HTTPError (status_code r)])) \<and>
   (ok_status (status_code r) \<and> json_body r = None \<longrightarrow>
      fetch_forecast_data (Inr r) = ([], [JSONDecodeError])) \<and>
   (ok_status (status_code r) \<and> json_body r = Some data \<and>
    (\<exists>d \<in> set (data_list_of data).
        field_unusable d ''time'' \<or> field_unusable d ''temperature_2m'') \<longrightarrow>
      (\<exists>e'. fetch_forecast_data (Inr r) = ([], [e']))) \<and>
   (ok_status (status_code r) \<and> json_body r = Some data \<and>
    length cities < length (data_list_of data) \<longrightarrow>
      (\<exists>e'. fetch_forecast_data (Inr r) = ([], [e']))) \<and>
   (\<forall>e'. try_block cities net = Inl e' \<longrightarrow> fetch_forecast_data net = ([], [e'])) \<and>
   (snd (fetch_forecast_data net) \<noteq> [] \<longrightarrow>
      fst (fetch_forecast_data net) = [] \<and> length (snd (fetch_forecast_data net)) = 1) \<and>
   (ok_status (status_code r) \<and> json_body r = Some data \<longrightarrow>
      (snd (fetch_forecast_data (Inr r)) \<noteq> [] \<longleftrightarrow>
         length cities < length (data_list_of data) \<or>
         (\<exists>d \<in> set (data_list_of data).
            field_unusable d ''time'' \<or> field_unusable d ''temperature_2m'')))"
proof -
  have transport: "fetch_forecast_data (Inl e) = ([], [e])"
    by (simp add: fetch_forecast_data_def fetch_with_def try_block_def)
  have status: "\<not> ok_status (status_code r) \<longrightarrow>
      fetch_forecast_data (Inr r) = ([], [HTTPError (status_code r)])"
    by (simp add: fetch_forecast_data_def fetch_with_def try_block_def raise_for_status_def
        ok_status_def)
  have body: "ok_status (status_code r) \<and> json_body r = None \<longrightarrow>
      fetch_forecast_data (Inr r) = ([], [JSONDecodeError])"
    by (auto simp: fetch_forecast_data_def fetch_with_def try_block_def raise_for_status_def
        response_json_def ok_status_def)
  have field: "ok_status (status_code r) \<and> json_body r = Some data \<and>
    (\<exists>d \<in> set (data_list_of data).
        field_unusable d ''time'' \<or> field_unusable d ''temperature_2m'') \<longrightarrow>
      (\<exists>e'. fetch_forecast_data (Inr r) = ([], [e']))"
  proof (intro impI, elim conjE)
    assume ok: "ok_status (status_code r)" "json_body r = Some data"
      and bad: "\<exists>d \<in> set (data_list_of data).
        field_unusable d ''time'' \<or> field_unusable d ''temperature_2m''"
    from fetch_loop_unusable [OF bad] obtain e'
      where "fetch_loop cities 0 (data_list_of data) [] = Inl e'" by blast
    then have "try_block cities (Inr r) = Inl e'"
      by (simp add: try_block_body [OF ok])
    then show "\<exists>e'. fetch_forecast_data (Inr r) = ([], [e'])"
      by (auto simp: fetch_forecast_data_def dest: fetch_with_raises)
  qed
  have many: "ok_status (status_code r) \<and> json_body r = Some data \<and>
    length cities < length (data_list_of data) \<longrightarrow>
      (\<exists>e'. fetch_forecast_data (Inr r) = ([], [e']))"
  proof (intro impI, elim conjE)
    assume ok: "ok_status (status_code r)" "json_body r = Some data"
      and len: "length cities < length (data_list_of data)"
    from fetch_loop_too_many [of 0 cities "data_list_of data" "[]"] len obtain e'
      where "fetch_loop cities 0 (data_list_of data) [] = Inl e'" by auto
    then have "try_block cities (Inr r) = Inl e'"
      by (simp add: try_block_body [OF ok])
    then show "\<exists>e'. fetch_forecast_data (Inr r) = ([], [e'])"
      by (auto simp: fetch_forecast_data_def dest: fetch_with_raises)
  qed
  have raises: "\<forall>e'. try_block cities net = Inl e' \<longrightarrow> fetch_forecast_data net = ([], [e'])"
    by (simp add: fetch_forecast_data_def fetch_with_raises)
  have shape: "snd (fetch_forecast_data net) \<noteq> [] \<longrightarrow>
      fst (fetch_forecast_data net) = [] \<and> length (snd (fetch_forecast_data net)) = 1"
    by (simp add: fetch_forecast_data_def fetch_with_def split: sum.splits)
  have only: "ok_status (status_code r) \<and> json_body r = Some data \<longrightarrow>
      (snd (fetch_forecast_data (Inr r)) \<noteq> [] \<longleftrightarrow>
         length cities < length (data_list_of data) \<or>
         (\<exists>d \<in> set (data_list_of data).
            field_unusable d ''time'' \<or> field_unusable d ''temperature_2m''))"
  proof (intro impI, elim conjE)
    assume ok: "ok_status (status_code r)" "json_body r = Some data"
    show "snd (fetch_forecast_data (Inr r)) \<noteq> [] \<longleftrightarrow>
         length cities < length (data_list_of data) \<or>
         (\<exists>d \<in> set (data_list_of data).
            field_unusable d ''time'' \<or> field_unusable d ''temperature_2m'')"
    proof (cases "length cities < length (data_list_of data) \<or>
         (\<exists>d \<in> set (data_list_of data).
            field_unusable d ''time'' \<or> field_unusable d ''temperature_2m'')")
      case True
      with field many ok obtain e' where "fetch_forecast_data (Inr r) = ([], [e'])"
        by blast
      with True show ?thesis by simp
    next
      case False
      then have "\<forall>d \<in> set (data_list_of data).
          \<not> field_unusable d ''time'' \<and> \<not> field_unusable d ''temperature_2m''"
        and "0 + length (data_list_of data) \<le> length cities"
        by auto
      from fetch_loop_usable [OF this, of "[]"] obtain rows
        where "fetch_loop cities 0 (data_list_of data) [] = Inr rows" by blast
      then have "fetch_forecast_data (Inr r) = (rows, [])"
        by (simp add: fetch_forecast_data_def fetch_with_def try_block_body [OF ok])
      with False show ?thesis by simp
    qed
  qed
  from transport status body field many raises shape only show ?thesis by blast
qed


theorem failure_is_total_witness:
  "ok_status 200 \<and>
   field_unusable (PDict [(''hourly'', PDict [(''time'', PList [PStr ''2026-11-03T00:00''])])]) ''temperature_2m'' \<and>
   has_lists (PDict [(''latitude'', PFloat 43.05),
             (''hourly'', PDict [(''time'', PList [PStr ''2026-11-03T00:00'', PStr ''2026-11-03T01:00'']),
                                 (''temperature_2m'', PList [PFloat 7.5])])]) \<and>
   fst (fetch_forecast_data (Inr \<lparr>status_code = 200, json_body = Some (PList
     [PDict [(''latitude'', PFloat 43.05),
             (''hourly'', PDict [(''time'', PList [PStr ''2026-11-03T00:00'', PStr ''2026-11-03T01:00'']),
                                 (''temperature_2m'', PList [PFloat 7.5])])],
      PDict [(''hourly'', PDict [(''time'', PList [PStr ''2026-11-03T00:00''])])]])\<rparr>)) = [] \<and>
   length (snd (fetch_forecast_data (Inr \<lparr>status_code = 200, json_body = Some (PList
     [PDict [(''latitude'', PFloat 43.05),
             (''hourly'', PDict [(''time'', PList [PStr ''2026-11-03T00:00'', PStr ''2026-11-03T01:00'']),
                                 (''temperature_2m'', PList [PFloat 7.5])])],
      PDict [(''hourly'', PDict [(''time'', PList [PStr ''2026-11-03T00:00''])])]])\<rparr>))) = 1 \<and>
   \<not> ok_status 503 \<and>
   fetch_forecast_data (Inr \<lparr>status_code = 503, json_body = None\<rparr>) = ([], [HTTPError 503])"
proof -
  let ?d1 = "PDict [(''latitude'', PFloat 43.05),
             (''hourly'', PDict [(''time'', PList [PStr ''2026-11-03T00:00'', PStr ''2026-11-03T01:00'']),
                                 (''temperature_2m'', PList [PFloat 7.5])])]"
  let ?d3 = "PDict [(''hourly'', PDict [(''time'', PList [PStr ''2026-11-03T00:00''])])]"
  let ?r = "\<lparr>status_code = 200, json_body = Some (PList [?d1, ?d3])\<rparr>"
  have ok: "ok_status 200" and down: "\<not> ok_status 503" by (simp_all add: ok_status_def)
  have bad: "field_unusable ?d3 ''temperature_2m''" by (simp add: fetch_eval)
  have good: "has_lists ?d1" by (simp add: fetch_eval)
  have "ok_status (status_code ?r) \<and> json_body ?r = Some (PList [?d1, ?d3]) \<and>
    (\<exists>d \<in> set (data_list_of (PList [?d1, ?d3])).
        field_unusable d ''time'' \<or> field_unusable d ''temperature_2m'') \<longrightarrow>
      (\<exists>e'. fetch_forecast_data (Inr ?r) = ([], [e']))"
    using failure_is_total [where r = ?r and data = "PList [?d1, ?d3]"] by blast
  moreover have "\<exists>d \<in> set (data_list_of (PList [?d1, ?d3])).
        field_unusable d ''time'' \<or> field_unusable d ''temperature_2m''"
    using bad by (simp add: data_list_of_list)
  ultimately obtain e' where "fetch_forecast_data (Inr ?r) = ([], [e'])"
    using ok by auto
  then have res: "fst (fetch_forecast_data (Inr ?r)) = [] \<and>
      length (snd (fetch_forecast_data (Inr ?r))) = 1"
    by simp
  have "\<not> ok_status (status_code \<lparr>status_code = 503, json_body = None\<rparr>) \<longrightarrow>
      fetch_forecast_data (Inr \<lparr>status_code = 503, json_body = None\<rparr>) =
        ([], [HTTPError (status_code \<lparr>status_code = 503, json_body = None\<rparr>)])"
    using failure_is_total [where r = "\<lparr>status_code = 503, json_body = None\<rparr>"] by blast
  with down have "fetch_forecast_data (Inr \<lparr>status_code = 503, json_body = None\<rparr>) =
      ([], [HTTPError 503])"
    by simp
  with ok bad good res down show ?thesis by blast
qed

text \<open>
  The claim C8 as the specification states it fails. In the first response
  \<open>hourly.time\<close> is a string where a list of timestamps is expected: its two characters
  are paired with the two temperatures, two records are returned and no error is shown.
  The second response has the status 304, which is not a success, and is read like a
  successful one.
\<close>

theorem failure_counterexample:
  "fetch_forecast_data (Inr \<lparr>status_code = 200, json_body = Some (PList
     [PDict [(''hourly'', PDict [(''time'', PStr ''ab''),
                                 (''temperature_2m'', PList [PFloat 1.5, PFloat 2.5])])]])\<rparr>) =
   ([\<lparr>City = ''Sapporo'', lat = 43.0618, lon = 141.3545, Time = PStr ''a'',
      Temperature = PFloat 1.5\<rparr>,
     \<lparr>City = ''Sapporo'', lat = 43.0618, lon = 141.3545, Time = PStr ''b'',
      Temperature = PFloat 2.5\<rparr>], []) \<and>
   fetch_forecast_data (Inr \<lparr>status_code = 304, json_body = Some (PList
     [PDict [(''hourly'', PDict [(''time'', PList [PStr ''2026-11-03T00:00'']),
                                 (''temperature_2m'', PList [PFloat 7.5])])]])\<rparr>) =
   ([\<lparr>City = ''Sapporo'', lat = 43.0618, lon = 141.3545, Time = PStr ''2026-11-03T00:00'',
      Temperature = PFloat 7.5\<rparr>], [])"
  by (simp add: fetch_forecast_data_def fetch_with_def try_block_def raise_for_status_def
      response_json_def data_list_of_def city_records_def zip_records_def cities_def
      city_names_def lats_def lons_def)

end
